theory Spec2Isabelle
  imports Complex_Main "HOL-Library.Signed_Division"
begin

section \<open>Worker assignment service: data model\<close>

text \<open>
  The embedding follows \<^verbatim>\<open>Backend/services/worker_assignment_service.go\<close>.
  Go structs are records, pointers to scalars are \<open>option\<close>s, the string-typed
  status enums are strings, and every \<^verbatim>\<open>(value, error)\<close> return is a sum with the
  error message on the left.
\<close>

text \<open>
  A \<^verbatim>\<open>time.Time\<close> is an instant counted in nanoseconds; a \<^verbatim>\<open>time.Duration\<close> is a
  signed 64-bit count of nanoseconds.
\<close>

type_synonym Time = int

type_synonym Duration = int

text \<open>
  Modelled from the spec: the \<^verbatim>\<open>models\<close> package (the struct declarations and the
  status constants) is not among the sources. The records below have the fields that
  the service reads and writes, under the names the service uses, each with a prefix
  naming its struct.
\<close>

record gorm_Model =
  ID :: nat
  CreatedAt :: Time
  UpdatedAt :: Time
  DeletedAt :: "Time option"

record Service =
  s_Model :: gorm_Model
  s_Name :: string
  s_Price :: "real option"

record UserSubscription =
  us_Model :: gorm_Model
  us_UserID :: nat
  us_Status :: string

record User =
  u_Model :: gorm_Model
  u_Name :: string
  u_Email :: "string option"
  u_Phone :: string
  u_UserType :: string
  u_Avatar :: string
  u_Gender :: string
  u_IsActive :: bool
  u_LastLoginAt :: "Time option"
  u_RoleApplicationStatus :: string
  u_ApplicationDate :: "Time option"
  u_ApprovalDate :: "Time option"
  u_WalletBalance :: real
  u_SubscriptionID :: "nat option"
  u_Subscription :: "UserSubscription option"
  u_HasActiveSubscription :: bool
  u_SubscriptionExpiryDate :: "Time option"

record Booking =
  b_Model :: gorm_Model
  b_BookingReference :: string
  b_UserID :: nat
  b_ServiceID :: nat
  b_Status :: string
  b_PaymentStatus :: string
  b_BookingType :: string
  b_CompletionType :: "string option"
  b_ScheduledDate :: "Time option"
  b_ScheduledTime :: "Time option"
  b_ScheduledEndTime :: "Time option"
  b_ActualStartTime :: "Time option"
  b_ActualEndTime :: "Time option"
  b_ActualDurationMinutes :: "int option"
  b_Address :: "string option"
  b_Description :: string
  b_ContactPerson :: string
  b_ContactPhone :: string
  b_SpecialInstructions :: string
  b_HoldExpiresAt :: "Time option"
  b_QuoteAmount :: "real option"
  b_QuoteNotes :: string
  b_QuoteProvidedBy :: "nat option"
  b_QuoteProvidedAt :: "Time option"
  b_QuoteAcceptedAt :: "Time option"
  b_QuoteExpiresAt :: "Time option"
  b_User :: User
  b_Service :: Service

record WorkerAssignment =
  a_Model :: gorm_Model
  a_BookingID :: nat
  a_WorkerID :: nat
  a_AssignedBy :: nat
  a_Status :: string
  a_AssignedAt :: Time
  a_AcceptedAt :: "Time option"
  a_RejectedAt :: "Time option"
  a_StartedAt :: "Time option"
  a_CompletedAt :: "Time option"
  a_AssignmentNotes :: string
  a_AcceptanceNotes :: string
  a_RejectionNotes :: string
  a_RejectionReason :: string
  a_Booking :: Booking
  a_Worker :: User
  a_AssignedByUser :: User

text \<open>
  Modelled from the spec: the worker row with its statistics (completed-job counter and
  cumulative earnings), which only the Complete transition increments.
\<close>

record Worker =
  w_Model :: gorm_Model
  w_UserID :: nat
  completedJobCount :: nat
  cumulativeEarnings :: real

text \<open>The wire types that the privacy projection produces.\<close>

record WorkerAssignmentUserResponse =
  ru_ID :: nat
  ru_Name :: string
  ru_Email :: "string option"
  ru_UserType :: string
  ru_Avatar :: string
  ru_Gender :: string
  ru_IsActive :: bool
  ru_LastLoginAt :: "Time option"
  ru_RoleApplicationStatus :: string
  ru_ApplicationDate :: "Time option"
  ru_ApprovalDate :: "Time option"
  ru_WalletBalance :: real
  ru_SubscriptionID :: "nat option"
  ru_Subscription :: "string option"
  ru_HasActiveSubscription :: bool
  ru_SubscriptionExpiryDate :: "Time option"
  ru_NotificationSettings :: "string option"

record WorkerAssignmentBookingResponse =
  rb_Model :: gorm_Model
  rb_BookingReference :: string
  rb_UserID :: nat
  rb_ServiceID :: nat
  rb_Status :: string
  rb_PaymentStatus :: string
  rb_BookingType :: string
  rb_CompletionType :: "string option"
  rb_ScheduledDate :: "Time option"
  rb_ScheduledTime :: "Time option"
  rb_ScheduledEndTime :: "Time option"
  rb_ActualStartTime :: "Time option"
  rb_ActualEndTime :: "Time option"
  rb_ActualDurationMinutes :: "int option"
  rb_Address :: "string option"
  rb_Description :: string
  rb_ContactPerson :: string
  rb_ContactPhone :: string
  rb_SpecialInstructions :: string
  rb_HoldExpiresAt :: "Time option"
  rb_QuoteAmount :: "real option"
  rb_QuoteNotes :: string
  rb_QuoteProvidedBy :: "nat option"
  rb_QuoteProvidedAt :: "Time option"
  rb_QuoteAcceptedAt :: "Time option"
  rb_QuoteExpiresAt :: "Time option"
  rb_User :: WorkerAssignmentUserResponse
  rb_Service :: Service

record WorkerAssignmentResponse =
  ra_Model :: gorm_Model
  ra_BookingID :: nat
  ra_WorkerID :: nat
  ra_AssignedBy :: nat
  ra_Status :: string
  ra_AssignedAt :: Time
  ra_AcceptedAt :: "Time option"
  ra_RejectedAt :: "Time option"
  ra_StartedAt :: "Time option"
  ra_CompletedAt :: "Time option"
  ra_AssignmentNotes :: string
  ra_AcceptanceNotes :: string
  ra_RejectionNotes :: string
  ra_RejectionReason :: string
  ra_Booking :: WorkerAssignmentBookingResponse
  ra_Worker :: User
  ra_AssignedByUser :: User

text \<open>
  Modelled from the spec: the status constants of the \<^verbatim>\<open>models\<close> package, with the
  values the spec lists for the two enums.
\<close>

definition AssignmentStatusAssigned :: string where
  "AssignmentStatusAssigned = ''assigned''"

definition AssignmentStatusAccepted :: string where
  "AssignmentStatusAccepted = ''accepted''"

definition AssignmentStatusRejected :: string where
  "AssignmentStatusRejected = ''rejected''"

definition AssignmentStatusInProgress :: string where
  "AssignmentStatusInProgress = ''in_progress''"

definition AssignmentStatusCompleted :: string where
  "AssignmentStatusCompleted = ''completed''"

definition BookingStatusConfirmed :: string where
  "BookingStatusConfirmed = ''confirmed''"

definition BookingStatusInProgress :: string where
  "BookingStatusInProgress = ''in_progress''"

definition BookingStatusCompleted :: string where
  "BookingStatusCompleted = ''completed''"

section \<open>Persistence and the outcomes of external calls\<close>

text \<open>
  Modelled from the spec: the repositories are not among the sources. A table is the
  list of its rows; \<open>GetByID\<close> selects the row whose key is the one asked for and
  \<open>Update\<close> overwrites the row that has the key of the value written. Whether a call
  to a collaborator fails is decided outside the service, so each such outcome is a
  field of the environment, as is the instant that \<^verbatim>\<open>time.Now()\<close> returns. A failed
  \<open>Update\<close> writes nothing. The chat, call-masking and notification services are
  taken as configured; the location tracking service may be absent, as the code allows.
\<close>

definition find_row :: "('r \<Rightarrow> nat) \<Rightarrow> 'r list \<Rightarrow> nat \<Rightarrow> 'r option" where
  "find_row key rows i = find (\<lambda>r. key r = i) rows"

definition save_row :: "('r \<Rightarrow> nat) \<Rightarrow> 'r \<Rightarrow> 'r list \<Rightarrow> 'r list" where
  "save_row key r rows = map (\<lambda>x. if key x = key r then r else x) rows"

record DB =
  assignments :: "WorkerAssignment list"
  bookings :: "Booking list"
  workers :: "Worker list"

record Env =
  now :: Time
  assignment_get_fails :: bool
  assignment_update_fails :: bool
  booking_get_fails :: bool
  booking_update_fails :: bool
  chat_create_fails :: bool
  worker_get_fails :: bool
  increment_fails :: bool
  chat_close_fails :: bool
  location_tracking_configured :: bool
  start_tracking_fails :: bool
  stop_tracking_fails :: bool

definition assignment_key :: "WorkerAssignment \<Rightarrow> nat" where
  "assignment_key a = ID (a_Model a)"

definition booking_key :: "Booking \<Rightarrow> nat" where
  "booking_key b = ID (b_Model b)"

definition worker_key :: "Worker \<Rightarrow> nat" where
  "worker_key w = ID (w_Model w)"

definition assignment_GetByID :: "Env \<Rightarrow> DB \<Rightarrow> nat \<Rightarrow> WorkerAssignment option" where
  "assignment_GetByID env db i =
     (if assignment_get_fails env then None else find_row assignment_key (assignments db) i)"

definition assignment_Update :: "Env \<Rightarrow> DB \<Rightarrow> WorkerAssignment \<Rightarrow> DB option" where
  "assignment_Update env db a =
     (if assignment_update_fails env then None
      else Some (db\<lparr>assignments := save_row assignment_key a (assignments db)\<rparr>))"

definition booking_GetByID :: "Env \<Rightarrow> DB \<Rightarrow> nat \<Rightarrow> Booking option" where
  "booking_GetByID env db i =
     (if booking_get_fails env then None else find_row booking_key (bookings db) i)"

definition booking_Update :: "Env \<Rightarrow> DB \<Rightarrow> Booking \<Rightarrow> DB option" where
  "booking_Update env db b =
     (if booking_update_fails env then None
      else Some (db\<lparr>bookings := save_row booking_key b (bookings db)\<rparr>))"

definition worker_GetByUserID :: "Env \<Rightarrow> DB \<Rightarrow> nat \<Rightarrow> Worker option" where
  "worker_GetByUserID env db uid =
     (if worker_get_fails env then None else find_row w_UserID (workers db) uid)"

definition bump_stats :: "real \<Rightarrow> Worker \<Rightarrow> Worker" where
  "bump_stats earnings w =
     w\<lparr>completedJobCount := completedJobCount w + 1,
       cumulativeEarnings := cumulativeEarnings w + earnings\<rparr>"

definition worker_IncrementCompletedJob :: "Env \<Rightarrow> DB \<Rightarrow> nat \<Rightarrow> real \<Rightarrow> DB option" where
  "worker_IncrementCompletedJob env db wid earnings =
     (if increment_fails env then None
      else Some (db\<lparr>workers :=
             map (\<lambda>w. if worker_key w = wid then bump_stats earnings w else w) (workers db)\<rparr>))"

text \<open>
  The calls the service makes to its side-effect ports and the error lines it logs, in
  the order it makes them. A call started with \<^verbatim>\<open>go\<close> is recorded where it is
  spawned; a log line is recorded by its format string.
\<close>

datatype effect =
    CreateBookingChatRoomWhenWorkerAccepts nat
  | EnableCallMasking nat
  | DisableCallMasking nat
  | SendWorkerAssignmentNotification nat string
  | NotifyAssignmentAccepted nat nat
  | SendWorkerAssignmentRejectedNotification nat
  | NotifyAssignmentRejected nat nat
  | StartTracking nat nat
  | NotifyWorkerStarted nat
  | IncrementCompletedJob nat real
  | CloseBookingChatRoom nat string
  | StopTracking nat nat
  | NotifyWorkerCompleted nat
  | LogError string

type_synonym outcome = "(string + WorkerAssignment) \<times> DB \<times> effect list"

section \<open>Durations\<close>

text \<open>
  \<^verbatim>\<open>Time.Sub\<close> saturates at the ends of the 64-bit range. Go's \<^verbatim>\<open>/\<close> and
  \<^verbatim>\<open>%\<close> on integers are \<open>sdiv\<close> and \<open>smod\<close>.
\<close>

definition minDuration :: Duration where
  "minDuration = - (2 ^ 63)"

definition maxDuration :: Duration where
  "maxDuration = 2 ^ 63 - 1"

definition Minute :: Duration where
  "Minute = 60 * 1000000000"

definition Sub :: "Time \<Rightarrow> Time \<Rightarrow> Duration" where
  "Sub t u =
     (if minDuration \<le> t - u \<and> t - u \<le> maxDuration then t - u
      else if t < u then minDuration else maxDuration)"

text \<open>
  A \<^verbatim>\<open>float64\<close> operation returns the exact result rounded to the nearest double,
  ties to the even significand. \<open>binade x\<close> is the exponent \<open>e\<close> with
  \<open>2 powi e \<le> \<bar>x\<bar> < 2 powi (e + 1)\<close>, found by searching down from the largest
  exponent of a double; a double has 53 significant bits, so its last place is
  \<open>2 powi (e - 52)\<close>, and never less than \<open>2 powi (- 1074)\<close>. Magnitudes are taken
  below \<open>2 powi 1024\<close>, which covers every value a duration gives.
\<close>

fun binade_below :: "nat \<Rightarrow> real \<Rightarrow> int" where
  "binade_below 0 x = - 1075"
| "binade_below (Suc n) x =
     (if 2 powi (int n - 1074) \<le> x then int n - 1074 else binade_below n x)"

definition binade :: "real \<Rightarrow> int" where
  "binade x = binade_below 2098 \<bar>x\<bar>"

definition ulp_exponent :: "real \<Rightarrow> int" where
  "ulp_exponent x = max (binade x - 52) (- 1074)"

definition round_half_even :: "real \<Rightarrow> int" where
  "round_half_even m =
     (if m - of_int \<lfloor>m\<rfloor> < 1 / 2 then \<lfloor>m\<rfloor>
      else if 1 / 2 < m - of_int \<lfloor>m\<rfloor> then \<lfloor>m\<rfloor> + 1
      else if even \<lfloor>m\<rfloor> then \<lfloor>m\<rfloor> else \<lfloor>m\<rfloor> + 1)"

definition float64 :: "real \<Rightarrow> real" where
  "float64 x = of_int (round_half_even (x / 2 powi ulp_exponent x)) * 2 powi ulp_exponent x"

text \<open>
  \<^verbatim>\<open>Duration.Minutes\<close> is \<^verbatim>\<open>float64(min) + float64(nsec)/(60*1e9)\<close> with
  \<^verbatim>\<open>min := d / Minute\<close> and \<^verbatim>\<open>nsec := d % Minute\<close>: two conversions, a division and
  an addition, each rounded. The conversion \<^verbatim>\<open>int(f)\<close> drops the fraction, towards
  zero.
\<close>

definition Minutes :: "Duration \<Rightarrow> real" where
  "Minutes d =
     float64 (float64 (of_int (d sdiv Minute))
              + float64 (float64 (of_int (d smod Minute)) / (60 * 1000000000)))"

definition go_int :: "real \<Rightarrow> int" where
  "go_int f = (if f < 0 then \<lceil>f\<rceil> else \<lfloor>f\<rfloor>)"

definition duration :: "Time \<Rightarrow> Time \<Rightarrow> int" where
  "duration now_t start = go_int (Minutes (Sub now_t start))"

section \<open>The four transitions\<close>

text \<open>
  Each operation loads the assignment, checks ownership, then the status, writes the
  assignment, loads and writes the booking, and only then calls the side-effect ports.
  The result is the value returned to the caller, the database left behind, and the port
  calls and log lines made.
\<close>

definition AcceptAssignment :: "Env \<Rightarrow> DB \<Rightarrow> nat \<Rightarrow> nat \<Rightarrow> string \<Rightarrow> outcome" where
  "AcceptAssignment env db assignmentID workerID notes =
     (case assignment_GetByID env db assignmentID of
        None \<Rightarrow> (Inl ''assignment not found'', db, [])
      | Some assignment0 \<Rightarrow>
          if a_WorkerID assignment0 \<noteq> workerID
          then (Inl ''unauthorized access to assignment'', db, [])
          else if a_Status assignment0 \<noteq> AssignmentStatusAssigned
          then (Inl ''assignment cannot be accepted in current status'', db, [])
          else
            let assignment = assignment0\<lparr>a_Status := AssignmentStatusAccepted,
                                         a_AcceptedAt := Some (now env),
                                         a_AcceptanceNotes := notes\<rparr>
            in (case assignment_Update env db assignment of
                  None \<Rightarrow> (Inl ''failed to accept assignment'', db,
                           [LogError ''Failed to accept assignment: %v''])
                | Some db1 \<Rightarrow>
                   (case booking_GetByID env db1 (a_BookingID assignment) of
                      None \<Rightarrow> (Inl ''failed to update booking status'', db1,
                               [LogError ''Failed to get booking for assignment: %v''])
                    | Some booking0 \<Rightarrow>
                        let booking = booking0\<lparr>b_Status := BookingStatusConfirmed\<rparr>
                        in (case booking_Update env db1 booking of
                              None \<Rightarrow> (Inl ''failed to update booking status'', db1,
                                       [LogError ''Failed to update booking status: %v''])
                            | Some db2 \<Rightarrow>
                                (Inr assignment, db2,
                                 [CreateBookingChatRoomWhenWorkerAccepts (a_BookingID assignment)]
                                 @ (if chat_create_fails env
                                    then [LogError ''Failed to create chat room for booking %d: %v'']
                                    else [])
                                 @ [EnableCallMasking (a_BookingID assignment),
                                    SendWorkerAssignmentNotification (assignment_key assignment)
                                      ''accepted'',
                                    NotifyAssignmentAccepted (assignment_key assignment)
                                      (booking_key booking)])))))"

definition RejectAssignment :: "Env \<Rightarrow> DB \<Rightarrow> nat \<Rightarrow> nat \<Rightarrow> string \<Rightarrow> string \<Rightarrow> outcome" where
  "RejectAssignment env db assignmentID workerID reason notes =
     (case assignment_GetByID env db assignmentID of
        None \<Rightarrow> (Inl ''assignment not found'', db, [])
      | Some assignment0 \<Rightarrow>
          if a_WorkerID assignment0 \<noteq> workerID
          then (Inl ''unauthorized access to assignment'', db, [])
          else if a_Status assignment0 \<noteq> AssignmentStatusAssigned
          then (Inl ''assignment cannot be rejected in current status'', db, [])
          else
            let assignment = assignment0\<lparr>a_Status := AssignmentStatusRejected,
                                         a_RejectedAt := Some (now env),
                                         a_RejectionReason := reason,
                                         a_RejectionNotes := notes\<rparr>
            in (case assignment_Update env db assignment of
                  None \<Rightarrow> (Inl ''failed to reject assignment'', db,
                           [LogError ''Failed to reject assignment: %v''])
                | Some db1 \<Rightarrow>
                   (case booking_GetByID env db1 (a_BookingID assignment) of
                      None \<Rightarrow> (Inl ''failed to update booking status'', db1,
                               [LogError ''Failed to get booking for assignment: %v''])
                    | Some booking0 \<Rightarrow>
                        let booking = booking0\<lparr>b_Status := BookingStatusConfirmed\<rparr>
                        in (case booking_Update env db1 booking of
                              None \<Rightarrow> (Inl ''failed to update booking status'', db1,
                                       [LogError ''Failed to update booking status: %v''])
                            | Some db2 \<Rightarrow>
                                (Inr assignment, db2,
                                 [DisableCallMasking (a_BookingID assignment),
                                  SendWorkerAssignmentRejectedNotification
                                    (assignment_key assignment),
                                  NotifyAssignmentRejected (assignment_key assignment)
                                    (booking_key booking)])))))"

definition StartAssignment :: "Env \<Rightarrow> DB \<Rightarrow> nat \<Rightarrow> nat \<Rightarrow> string \<Rightarrow> outcome" where
  "StartAssignment env db assignmentID workerID notes =
     (case assignment_GetByID env db assignmentID of
        None \<Rightarrow> (Inl ''assignment not found'', db, [])
      | Some assignment0 \<Rightarrow>
          if a_WorkerID assignment0 \<noteq> workerID
          then (Inl ''unauthorized access to assignment'', db, [])
          else if a_Status assignment0 \<noteq> AssignmentStatusAccepted
          then (Inl ''assignment cannot be started in current status'', db, [])
          else
            let assignment = assignment0\<lparr>a_Status := AssignmentStatusInProgress,
                                         a_StartedAt := Some (now env)\<rparr>
            in (case assignment_Update env db assignment of
                  None \<Rightarrow> (Inl ''failed to start assignment'', db,
                           [LogError ''Failed to start assignment: %v''])
                | Some db1 \<Rightarrow>
                   (case booking_GetByID env db1 (a_BookingID assignment) of
                      None \<Rightarrow> (Inl ''failed to update booking status'', db1,
                               [LogError ''Failed to get booking for assignment: %v''])
                    | Some booking0 \<Rightarrow>
                        let booking = booking0\<lparr>b_Status := BookingStatusInProgress,
                                               b_ActualStartTime := Some (now env)\<rparr>
                        in (case booking_Update env db1 booking of
                              None \<Rightarrow> (Inl ''failed to update booking status'', db1,
                                       [LogError ''Failed to update booking status: %v''])
                            | Some db2 \<Rightarrow>
                                (Inr assignment, db2,
                                 (if location_tracking_configured env
                                  then [StartTracking workerID assignmentID]
                                       @ (if start_tracking_fails env
                                          then [LogError
                                            ''Failed to start location tracking for assignment %d: %v'']
                                          else [])
                                  else [])
                                 @ [NotifyWorkerStarted (booking_key booking)])))))"

text \<open>
  The earnings that Complete passes to the statistics increment: the quote amount for an
  inquiry booking, else the price of the service, else zero.
\<close>

definition earnings :: "Booking \<Rightarrow> real" where
  "earnings booking =
     (case b_QuoteAmount booking of
        Some q \<Rightarrow> q
      | None \<Rightarrow> (case s_Price (b_Service booking) of Some p \<Rightarrow> p | None \<Rightarrow> 0))"

text \<open>
  The statistics block of Complete: look the worker up by the user id of the assignment
  and increment; either failure is logged and goes no further.
\<close>

definition update_worker_statistics :: "Env \<Rightarrow> DB \<Rightarrow> WorkerAssignment \<Rightarrow> Booking \<Rightarrow> DB \<times> effect list" where
  "update_worker_statistics env db assignment booking =
     (case worker_GetByUserID env db (a_WorkerID assignment) of
        None \<Rightarrow> (db, [LogError ''Failed to get worker for assignment %d: %v''])
      | Some worker \<Rightarrow>
          (case worker_IncrementCompletedJob env db (worker_key worker) (earnings booking) of
             None \<Rightarrow> (db, [IncrementCompletedJob (worker_key worker) (earnings booking),
                           LogError ''Failed to update worker statistics for assignment %d: %v''])
           | Some db' \<Rightarrow> (db', [IncrementCompletedJob (worker_key worker) (earnings booking)])))"

definition CompleteAssignment :: "Env \<Rightarrow> DB \<Rightarrow> nat \<Rightarrow> nat \<Rightarrow> string \<Rightarrow> string list \<Rightarrow> string list \<Rightarrow> outcome" where
  "CompleteAssignment env db assignmentID workerID notes materialsUsed photos =
     (case assignment_GetByID env db assignmentID of
        None \<Rightarrow> (Inl ''assignment not found'', db, [])
      | Some assignment0 \<Rightarrow>
          if a_WorkerID assignment0 \<noteq> workerID
          then (Inl ''unauthorized access to assignment'', db, [])
          else if a_Status assignment0 \<noteq> AssignmentStatusInProgress
          then (Inl ''assignment cannot be completed in current status'', db, [])
          else
            let assignment = assignment0\<lparr>a_Status := AssignmentStatusCompleted,
                                         a_CompletedAt := Some (now env)\<rparr>
            in (case assignment_Update env db assignment of
                  None \<Rightarrow> (Inl ''failed to complete assignment'', db,
                           [LogError ''Failed to complete assignment: %v''])
                | Some db1 \<Rightarrow>
                   (case booking_GetByID env db1 (a_BookingID assignment) of
                      None \<Rightarrow> (Inl ''failed to update booking status'', db1,
                               [LogError ''Failed to get booking for assignment: %v''])
                    | Some booking0 \<Rightarrow>
                        let booking1 = booking0\<lparr>b_Status := BookingStatusCompleted,
                                                b_ActualEndTime := Some (now env)\<rparr>;
                            booking =
                              (case b_ActualStartTime booking1 of
                                 None \<Rightarrow> booking1
                               | Some start \<Rightarrow>
                                   booking1\<lparr>b_ActualDurationMinutes :=
                                              Some (duration (now env) start)\<rparr>)
                        in (case booking_Update env db1 booking of
                              None \<Rightarrow> (Inl ''failed to update booking status'', db1,
                                       [LogError ''Failed to update booking status: %v''])
                            | Some db2 \<Rightarrow>
                                let stats = update_worker_statistics env db2 assignment booking
                                in (Inr assignment, fst stats,
                                    [DisableCallMasking (a_BookingID assignment)]
                                    @ snd stats
                                    @ [CloseBookingChatRoom (a_BookingID assignment)
                                         ''Service completed'']
                                    @ (if chat_close_fails env
                                       then [LogError
                                         ''Failed to close chat room for booking %d: %v'']
                                       else [])
                                    @ (if location_tracking_configured env
                                       then [StopTracking workerID assignmentID]
                                            @ (if stop_tracking_fails env
                                               then [LogError
                                                 ''Failed to stop location tracking for assignment %d: %v'']
                                               else [])
                                       else [])
                                    @ [NotifyWorkerCompleted (booking_key booking)])))))"

text \<open>
  The booking that Complete writes, as one function of the instant and the booking
  loaded: the duration is set only when the booking has a start time.
\<close>

definition completed_booking :: "Time \<Rightarrow> Booking \<Rightarrow> Booking" where
  "completed_booking t b =
     (case b_ActualStartTime b of
        None \<Rightarrow> b\<lparr>b_Status := BookingStatusCompleted, b_ActualEndTime := Some t\<rparr>
      | Some s \<Rightarrow> b\<lparr>b_Status := BookingStatusCompleted, b_ActualEndTime := Some t,
                    b_ActualDurationMinutes := Some (duration t s)\<rparr>)"

section \<open>Queries and the privacy projection\<close>

definition GetWorkerAssignment :: "Env \<Rightarrow> DB \<Rightarrow> nat \<Rightarrow> nat \<Rightarrow> string + WorkerAssignment" where
  "GetWorkerAssignment env db assignmentID workerID =
     (case assignment_GetByID env db assignmentID of
        None \<Rightarrow> Inl ''assignment not found''
      | Some assignment \<Rightarrow>
          if a_WorkerID assignment \<noteq> workerID
          then Inl ''unauthorized access to assignment''
          else Inr assignment)"

definition convertToPrivacyProtectedResponse :: "WorkerAssignment \<Rightarrow> WorkerAssignmentResponse" where
  "convertToPrivacyProtectedResponse assignment =
     \<lparr>ra_Model = a_Model assignment,
      ra_BookingID = a_BookingID assignment,
      ra_WorkerID = a_WorkerID assignment,
      ra_AssignedBy = a_AssignedBy assignment,
      ra_Status = a_Status assignment,
      ra_AssignedAt = a_AssignedAt assignment,
      ra_AcceptedAt = a_AcceptedAt assignment,
      ra_RejectedAt = a_RejectedAt assignment,
      ra_StartedAt = a_StartedAt assignment,
      ra_CompletedAt = a_CompletedAt assignment,
      ra_AssignmentNotes = a_AssignmentNotes assignment,
      ra_AcceptanceNotes = a_AcceptanceNotes assignment,
      ra_RejectionNotes = a_RejectionNotes assignment,
      ra_RejectionReason = a_RejectionReason assignment,
      ra_Booking =
        \<lparr>rb_Model = b_Model (a_Booking assignment),
         rb_BookingReference = b_BookingReference (a_Booking assignment),
         rb_UserID = b_UserID (a_Booking assignment),
         rb_ServiceID = b_ServiceID (a_Booking assignment),
         rb_Status = b_Status (a_Booking assignment),
         rb_PaymentStatus = b_PaymentStatus (a_Booking assignment),
         rb_BookingType = b_BookingType (a_Booking assignment),
         rb_CompletionType = b_CompletionType (a_Booking assignment),
         rb_ScheduledDate = b_ScheduledDate (a_Booking assignment),
         rb_ScheduledTime = b_ScheduledTime (a_Booking assignment),
         rb_ScheduledEndTime = b_ScheduledEndTime (a_Booking assignment),
         rb_ActualStartTime = b_ActualStartTime (a_Booking assignment),
         rb_ActualEndTime = b_ActualEndTime (a_Booking assignment),
         rb_ActualDurationMinutes = b_ActualDurationMinutes (a_Booking assignment),
         rb_Address = b_Address (a_Booking assignment),
         rb_Description = b_Description (a_Booking assignment),
         rb_ContactPerson = b_ContactPerson (a_Booking assignment),
         rb_ContactPhone = b_ContactPhone (a_Booking assignment),
         rb_SpecialInstructions = b_SpecialInstructions (a_Booking assignment),
         rb_HoldExpiresAt = b_HoldExpiresAt (a_Booking assignment),
         rb_QuoteAmount = b_QuoteAmount (a_Booking assignment),
         rb_QuoteNotes = b_QuoteNotes (a_Booking assignment),
         rb_QuoteProvidedBy = b_QuoteProvidedBy (a_Booking assignment),
         rb_QuoteProvidedAt = b_QuoteProvidedAt (a_Booking assignment),
         rb_QuoteAcceptedAt = b_QuoteAcceptedAt (a_Booking assignment),
         rb_QuoteExpiresAt = b_QuoteExpiresAt (a_Booking assignment),
         rb_User =
           \<lparr>ru_ID = ID (u_Model (b_User (a_Booking assignment))),
            ru_Name = u_Name (b_User (a_Booking assignment)),
            ru_Email = u_Email (b_User (a_Booking assignment)),
            ru_UserType = u_UserType (b_User (a_Booking assignment)),
            ru_Avatar = u_Avatar (b_User (a_Booking assignment)),
            ru_Gender = u_Gender (b_User (a_Booking assignment)),
            ru_IsActive = u_IsActive (b_User (a_Booking assignment)),
            ru_LastLoginAt = u_LastLoginAt (b_User (a_Booking assignment)),
            ru_RoleApplicationStatus = u_RoleApplicationStatus (b_User (a_Booking assignment)),
            ru_ApplicationDate = u_ApplicationDate (b_User (a_Booking assignment)),
            ru_ApprovalDate = u_ApprovalDate (b_User (a_Booking assignment)),
            ru_WalletBalance = u_WalletBalance (b_User (a_Booking assignment)),
            ru_SubscriptionID = u_SubscriptionID (b_User (a_Booking assignment)),
            ru_Subscription = None,
            ru_HasActiveSubscription = u_HasActiveSubscription (b_User (a_Booking assignment)),
            ru_SubscriptionExpiryDate = u_SubscriptionExpiryDate (b_User (a_Booking assignment)),
            ru_NotificationSettings = None\<rparr>,
         rb_Service = b_Service (a_Booking assignment)\<rparr>,
      ra_Worker = a_Worker assignment,
      ra_AssignedByUser = a_AssignedByUser assignment\<rparr>"

text \<open>
  The list query. The repository call and the filters it takes are outside the sources,
  so its result (an error, or the page of assignments with its pagination) is the
  argument \<open>repo_result\<close>.
\<close>

record Pagination =
  Page :: nat
  Limit :: nat
  Total :: nat
  TotalPages :: nat

definition GetWorkerAssignments :: "(string + WorkerAssignment list \<times> Pagination) \<Rightarrow> string + WorkerAssignmentResponse list \<times> Pagination" where
  "GetWorkerAssignments repo_result =
     (case repo_result of
        Inl err \<Rightarrow> Inl ''failed to get worker assignments''
      | Inr (assignments_page, pagination) \<Rightarrow>
          Inr (map convertToPrivacyProtectedResponse assignments_page,
               \<lparr>Page = Page pagination, Limit = Limit pagination,
                Total = Total pagination, TotalPages = TotalPages pagination\<rparr>))"

section \<open>The operations as one family, and the transition table\<close>

datatype operation =
    Accept string
  | Reject string string
  | Start string
  | Complete string "string list" "string list"

fun run :: "operation \<Rightarrow> Env \<Rightarrow> DB \<Rightarrow> nat \<Rightarrow> nat \<Rightarrow> outcome" where
  "run (Accept notes) env db assignmentID workerID =
     AcceptAssignment env db assignmentID workerID notes"
| "run (Reject reason notes) env db assignmentID workerID =
     RejectAssignment env db assignmentID workerID reason notes"
| "run (Start notes) env db assignmentID workerID =
     StartAssignment env db assignmentID workerID notes"
| "run (Complete notes materialsUsed photos) env db assignmentID workerID =
     CompleteAssignment env db assignmentID workerID notes materialsUsed photos"

text \<open>
  The transition table as the specification words it: the status an operation requires,
  the status it gives the assignment and the status it gives the booking.
\<close>

fun spec_precondition :: "operation \<Rightarrow> string" where
  "spec_precondition (Accept _) = ''assigned''"
| "spec_precondition (Reject _ _) = ''assigned''"
| "spec_precondition (Start _) = ''accepted''"
| "spec_precondition (Complete _ _ _) = ''in_progress''"

fun spec_assignment_status :: "operation \<Rightarrow> string" where
  "spec_assignment_status (Accept _) = ''accepted''"
| "spec_assignment_status (Reject _ _) = ''rejected''"
| "spec_assignment_status (Start _) = ''in_progress''"
| "spec_assignment_status (Complete _ _ _) = ''completed''"

fun spec_booking_status :: "operation \<Rightarrow> string" where
  "spec_booking_status (Accept _) = ''confirmed''"
| "spec_booking_status (Reject _ _) = ''confirmed''"
| "spec_booking_status (Start _) = ''in_progress''"
| "spec_booking_status (Complete _ _ _) = ''completed''"

text \<open>
  The assignment mutation of the table, at the instant \<open>t\<close> of the operation.
\<close>

fun spec_assignment_mutation :: "operation \<Rightarrow> Time \<Rightarrow> WorkerAssignment \<Rightarrow> WorkerAssignment" where
  "spec_assignment_mutation (Accept notes) t a =
     a\<lparr>a_Status := ''accepted'', a_AcceptedAt := Some t, a_AcceptanceNotes := notes\<rparr>"
| "spec_assignment_mutation (Reject reason notes) t a =
     a\<lparr>a_Status := ''rejected'', a_RejectedAt := Some t, a_RejectionReason := reason,
       a_RejectionNotes := notes\<rparr>"
| "spec_assignment_mutation (Start notes) t a =
     a\<lparr>a_Status := ''in_progress'', a_StartedAt := Some t\<rparr>"
| "spec_assignment_mutation (Complete notes materialsUsed photos) t a =
     a\<lparr>a_Status := ''completed'', a_CompletedAt := Some t\<rparr>"

text \<open>
  The error taxonomy of the specification, and the kind of each message the service
  returns.
\<close>

datatype error_kind = NotFound | Unauthorized | InvalidStateTransition | PersistenceFailure

definition kind_of :: "string \<Rightarrow> error_kind option" where
  "kind_of msg =
     (if msg = ''assignment not found'' then Some NotFound
      else if msg = ''unauthorized access to assignment'' then Some Unauthorized
      else if msg \<in> set [''assignment cannot be accepted in current status'',
                         ''assignment cannot be rejected in current status'',
                         ''assignment cannot be started in current status'',
                         ''assignment cannot be completed in current status'']
      then Some InvalidStateTransition
      else if msg \<in> set [''failed to accept assignment'', ''failed to reject assignment'',
                         ''failed to start assignment'', ''failed to complete assignment'',
                         ''failed to update booking status'']
      then Some PersistenceFailure
      else None)"

section \<open>Invariants of an assignment\<close>

text \<open>
  The timestamp invariant of the data model: at most one of acceptedAt and rejectedAt,
  startedAt only with acceptedAt, completedAt only with startedAt.
\<close>

definition timestamp_invariant :: "WorkerAssignment \<Rightarrow> bool" where
  "timestamp_invariant a \<longleftrightarrow>
     (a_AcceptedAt a = None \<or> a_RejectedAt a = None) \<and>
     (a_StartedAt a \<noteq> None \<longrightarrow> a_AcceptedAt a \<noteq> None) \<and>
     (a_CompletedAt a \<noteq> None \<longrightarrow> a_StartedAt a \<noteq> None)"

text \<open>
  The timestamps agree with the status: nothing is decided while the assignment is
  assigned, an accepted one has its acceptance time, one in progress its start time.
\<close>

definition status_consistent :: "WorkerAssignment \<Rightarrow> bool" where
  "status_consistent a \<longleftrightarrow>
     (a_Status a = AssignmentStatusAssigned \<longrightarrow> a_AcceptedAt a = None \<and> a_RejectedAt a = None) \<and>
     (a_Status a = AssignmentStatusAccepted \<longrightarrow> a_AcceptedAt a \<noteq> None) \<and>
     (a_Status a = AssignmentStatusInProgress \<longrightarrow> a_StartedAt a \<noteq> None)"

section \<open>A small database to run the operations on\<close>

definition demo_model :: "nat \<Rightarrow> gorm_Model" where
  "demo_model i = \<lparr>ID = i, CreatedAt = 0, UpdatedAt = 0, DeletedAt = None\<rparr>"

definition demo_user :: "nat \<Rightarrow> string \<Rightarrow> string \<Rightarrow> User" where
  "demo_user i name phone =
     \<lparr>u_Model = demo_model i, u_Name = name, u_Email = None, u_Phone = phone,
      u_UserType = ''normal'', u_Avatar = [], u_Gender = [], u_IsActive = True,
      u_LastLoginAt = None, u_RoleApplicationStatus = ''none'', u_ApplicationDate = None,
      u_ApprovalDate = None, u_WalletBalance = 0, u_SubscriptionID = None,
      u_Subscription = None, u_HasActiveSubscription = False,
      u_SubscriptionExpiryDate = None\<rparr>"

definition demo_service :: "real option \<Rightarrow> Service" where
  "demo_service price = \<lparr>s_Model = demo_model 3, s_Name = ''Pruning'', s_Price = price\<rparr>"

definition demo_booking :: "string \<Rightarrow> Time option \<Rightarrow> real option \<Rightarrow> real option \<Rightarrow> Booking" where
  "demo_booking status started quote price =
     \<lparr>b_Model = demo_model 10, b_BookingReference = ''BK10'', b_UserID = 5, b_ServiceID = 3,
      b_Status = status, b_PaymentStatus = ''completed'', b_BookingType = ''regular'',
      b_CompletionType = None, b_ScheduledDate = None, b_ScheduledTime = None,
      b_ScheduledEndTime = None, b_ActualStartTime = started, b_ActualEndTime = None,
      b_ActualDurationMinutes = None, b_Address = None, b_Description = [],
      b_ContactPerson = ''Asha'', b_ContactPhone = [], b_SpecialInstructions = [],
      b_HoldExpiresAt = None, b_QuoteAmount = quote, b_QuoteNotes = [],
      b_QuoteProvidedBy = None, b_QuoteProvidedAt = None, b_QuoteAcceptedAt = None,
      b_QuoteExpiresAt = None, b_User = demo_user 5 ''Asha'' ''9876543210'',
      b_Service = demo_service price\<rparr>"

definition demo_assignment :: "string \<Rightarrow> Booking \<Rightarrow> WorkerAssignment" where
  "demo_assignment status booking =
     \<lparr>a_Model = demo_model 1, a_BookingID = 10, a_WorkerID = 7, a_AssignedBy = 2,
      a_Status = status, a_AssignedAt = 0, a_AcceptedAt = None, a_RejectedAt = None,
      a_StartedAt = None, a_CompletedAt = None, a_AssignmentNotes = [],
      a_AcceptanceNotes = [], a_RejectionNotes = [], a_RejectionReason = [],
      a_Booking = booking, a_Worker = demo_user 7 ''Ravi'' ''9000000007'',
      a_AssignedByUser = demo_user 2 ''Admin'' ''9000000002''\<rparr>"

definition demo_worker :: Worker where
  "demo_worker = \<lparr>w_Model = demo_model 40, w_UserID = 7, completedJobCount = 2,
                  cumulativeEarnings = 300\<rparr>"

definition demo_db :: "WorkerAssignment \<Rightarrow> DB" where
  "demo_db a = \<lparr>assignments = [a], bookings = [a_Booking a], workers = [demo_worker]\<rparr>"

definition demo_env :: "Time \<Rightarrow> Env" where
  "demo_env t =
     \<lparr>now = t, assignment_get_fails = False, assignment_update_fails = False,
      booking_get_fails = False, booking_update_fails = False, chat_create_fails = False,
      worker_get_fails = False, increment_fails = False, chat_close_fails = False,
      location_tracking_configured = True, start_tracking_fails = False,
      stop_tracking_fails = False\<rparr>"

section \<open>Reading the port calls\<close>

text \<open>The statistics increments among the port calls of an operation, in order.\<close>

fun increment_of :: "effect \<Rightarrow> (nat \<times> real) option" where
  "increment_of (IncrementCompletedJob wid e) = Some (wid, e)"
| "increment_of _ = None"

definition stat_increments :: "effect list \<Rightarrow> (nat \<times> real) list" where
  "stat_increments fx = List.map_filter increment_of fx"

section \<open>Two Accept calls on one assignment\<close>

text \<open>
  AcceptAssignment in two halves: the load with the ownership and status checks, and
  the writes with the port calls that follow them. Each repository call is one step;
  nothing in the operation holds the row between the load and the write.
\<close>

definition accept_load :: "Env \<Rightarrow> DB \<Rightarrow> nat \<Rightarrow> nat \<Rightarrow> string + WorkerAssignment" where
  "accept_load env db assignmentID workerID =
     (case assignment_GetByID env db assignmentID of
        None \<Rightarrow> Inl ''assignment not found''
      | Some assignment0 \<Rightarrow>
          if a_WorkerID assignment0 \<noteq> workerID
          then Inl ''unauthorized access to assignment''
          else if a_Status assignment0 \<noteq> AssignmentStatusAssigned
          then Inl ''assignment cannot be accepted in current status''
          else Inr assignment0)"

definition accept_store :: "Env \<Rightarrow> DB \<Rightarrow> string \<Rightarrow> WorkerAssignment \<Rightarrow> outcome" where
  "accept_store env db notes assignment0 =
     (let assignment = assignment0\<lparr>a_Status := AssignmentStatusAccepted,
                                  a_AcceptedAt := Some (now env),
                                  a_AcceptanceNotes := notes\<rparr>
      in (case assignment_Update env db assignment of
            None \<Rightarrow> (Inl ''failed to accept assignment'', db,
                     [LogError ''Failed to accept assignment: %v''])
          | Some db1 \<Rightarrow>
             (case booking_GetByID env db1 (a_BookingID assignment) of
                None \<Rightarrow> (Inl ''failed to update booking status'', db1,
                         [LogError ''Failed to get booking for assignment: %v''])
              | Some booking0 \<Rightarrow>
                  let booking = booking0\<lparr>b_Status := BookingStatusConfirmed\<rparr>
                  in (case booking_Update env db1 booking of
                        None \<Rightarrow> (Inl ''failed to update booking status'', db1,
                                 [LogError ''Failed to update booking status: %v''])
                      | Some db2 \<Rightarrow>
                          (Inr assignment, db2,
                           [CreateBookingChatRoomWhenWorkerAccepts (a_BookingID assignment)]
                           @ (if chat_create_fails env
                              then [LogError ''Failed to create chat room for booking %d: %v'']
                              else [])
                           @ [EnableCallMasking (a_BookingID assignment),
                              SendWorkerAssignmentNotification (assignment_key assignment)
                                ''accepted'',
                              NotifyAssignmentAccepted (assignment_key assignment)
                                (booking_key booking)])))))"

text \<open>
  Two calls, one after the other: the second starts from the database the first left.
\<close>

definition accept_in_sequence :: "Env \<Rightarrow> Env \<Rightarrow> DB \<Rightarrow> nat \<Rightarrow> nat \<Rightarrow> string \<Rightarrow> string \<Rightarrow> (string + WorkerAssignment) \<times> (string + WorkerAssignment) \<times> DB \<times> effect list" where
  "accept_in_sequence env1 env2 db assignmentID workerID notes1 notes2 =
     (case AcceptAssignment env1 db assignmentID workerID notes1 of
        (r1, db1, fx1) \<Rightarrow>
          (case AcceptAssignment env2 db1 assignmentID workerID notes2 of
             (r2, db2, fx2) \<Rightarrow> (r1, r2, db2, fx1 @ fx2)))"

text \<open>
  Two calls that overlap: both load and check before either writes, then the first
  writes, then the second.
\<close>

definition accept_overlapping :: "Env \<Rightarrow> Env \<Rightarrow> DB \<Rightarrow> nat \<Rightarrow> nat \<Rightarrow> string \<Rightarrow> string \<Rightarrow> (string + WorkerAssignment) \<times> (string + WorkerAssignment) \<times> DB \<times> effect list" where
  "accept_overlapping env1 env2 db assignmentID workerID notes1 notes2 =
     (let l1 = accept_load env1 db assignmentID workerID;
          l2 = accept_load env2 db assignmentID workerID
      in case (case l1 of Inl e \<Rightarrow> (Inl e, db, []) | Inr a1 \<Rightarrow> accept_store env1 db notes1 a1) of
           (r1, db1, fx1) \<Rightarrow>
             (case (case l2 of Inl e \<Rightarrow> (Inl e, db1, [])
                             | Inr a2 \<Rightarrow> accept_store env2 db1 notes2 a2) of
                (r2, db2, fx2) \<Rightarrow> (r1, r2, db2, fx1 @ fx2)))"

section \<open>Facts about rounding and durations\<close>

lemma binade_below_less:
  assumes "- 1074 \<le> k" and "x < 2 powi k"
  shows "binade_below n x < k"
proof (induction n)
  case 0
  show ?case using assms(1) by simp
next
  case (Suc n)
  show ?case
  proof (cases "2 powi (int n - 1074) \<le> x")
    case True
    then have lt: "(2::real) powi (int n - 1074) < 2 powi k" using assms(2) by simp
    have "int n - 1074 < k"
    proof (rule ccontr)
      assume "\<not> int n - 1074 < k"
      then have "k \<le> int n - 1074" by simp
      then have "(2::real) powi k \<le> 2 powi (int n - 1074)"
        by (rule power_int_increasing) simp
      with lt show False by simp
    qed
    with True show ?thesis by simp
  next
    case False
    with Suc show ?thesis by simp
  qed
qed

lemma ulp_exponent_le:
  assumes "- 1021 \<le> k" and "\<bar>x\<bar> < 2 powi k"
  shows "ulp_exponent x \<le> k - 53"
proof -
  have "binade x < k"
    unfolding binade_def using assms by (intro binade_below_less) simp_all
  with assms(1) show ?thesis by (simp add: ulp_exponent_def)
qed

lemma round_half_even_ge_floor: "\<lfloor>m\<rfloor> \<le> round_half_even m"
  by (simp add: round_half_even_def)

lemma round_half_even_le_ceiling: "round_half_even m \<le> \<lceil>m\<rceil>"
proof (cases "m = of_int \<lfloor>m\<rfloor>")
  case True
  then have "round_half_even m = \<lfloor>m\<rfloor>" by (simp add: round_half_even_def)
  then show ?thesis by (simp add: floor_le_ceiling)
next
  case False
  then have "\<lceil>m\<rceil> = \<lfloor>m\<rfloor> + 1" by (simp add: ceiling_altdef)
  then show ?thesis by (simp add: round_half_even_def)
qed

lemma round_half_even_error: "\<bar>of_int (round_half_even m) - m\<bar> \<le> 1 / 2"
proof -
  have "of_int \<lfloor>m\<rfloor> \<le> m" "m < of_int \<lfloor>m\<rfloor> + 1" by linarith+
  then show ?thesis by (auto simp: round_half_even_def)
qed

lemma float64_error: "\<bar>float64 x - x\<bar> \<le> 2 powi ulp_exponent x / 2"
proof -
  let ?p = "(2::real) powi ulp_exponent x"
  have p: "0 < ?p" by simp
  have "float64 x - x = (of_int (round_half_even (x / ?p)) - x / ?p) * ?p"
    using p by (simp add: float64_def field_simps)
  then have "\<bar>float64 x - x\<bar> = \<bar>of_int (round_half_even (x / ?p)) - x / ?p\<bar> * ?p"
    using p by (simp add: abs_mult)
  also have "\<dots> \<le> (1 / 2) * ?p"
    using round_half_even_error [of "x / ?p"] p by (intro mult_right_mono) simp_all
  finally show ?thesis by simp
qed

lemma scaled_int:
  assumes "u \<le> 0"
  shows "of_int k / (2::real) powi u = of_int (k * 2 ^ nat (- u))"
proof -
  have "(2::real) powi u = inverse 2 ^ nat (- u)"
    using assms by (cases "u = 0") (simp_all add: power_int_def)
  also have "\<dots> = inverse (2 ^ nat (- u))" by (rule power_inverse)
  finally have "of_int k / (2::real) powi u = of_int k * 2 ^ nat (- u)"
    by (simp only: divide_inverse inverse_inverse_eq)
  then show ?thesis by simp
qed

lemma float64_le_int:
  assumes "x \<le> of_int k" and "ulp_exponent x \<le> 0"
  shows "float64 x \<le> of_int k"
proof -
  let ?u = "ulp_exponent x"
  let ?p = "(2::real) powi ?u"
  have p: "0 < ?p" by simp
  have "x / ?p \<le> of_int k / ?p" using assms(1) p by (simp add: divide_right_mono)
  also have "\<dots> = of_int (k * 2 ^ nat (- ?u))" by (rule scaled_int [OF assms(2)])
  finally have "\<lceil>x / ?p\<rceil> \<le> k * 2 ^ nat (- ?u)" by (simp add: ceiling_le_iff)
  with round_half_even_le_ceiling [of "x / ?p"]
  have "round_half_even (x / ?p) \<le> k * 2 ^ nat (- ?u)" by linarith
  then have "(of_int (round_half_even (x / ?p)) :: real) \<le> of_int (k * 2 ^ nat (- ?u))"
    by (simp only: of_int_le_iff)
  also have "\<dots> = of_int k / ?p" by (rule scaled_int [OF assms(2), symmetric])
  finally have "of_int (round_half_even (x / ?p)) * ?p \<le> of_int k / ?p * ?p"
    using p by (intro mult_right_mono) simp_all
  then show ?thesis using p by (simp add: float64_def)
qed

lemma float64_ge_int:
  assumes "of_int k \<le> x" and "ulp_exponent x \<le> 0"
  shows "of_int k \<le> float64 x"
proof -
  let ?u = "ulp_exponent x"
  let ?p = "(2::real) powi ?u"
  have p: "0 < ?p" by simp
  have "of_int (k * 2 ^ nat (- ?u)) = of_int k / ?p" by (rule scaled_int [OF assms(2), symmetric])
  also have "\<dots> \<le> x / ?p" using assms(1) p by (simp add: divide_right_mono)
  finally have "k * 2 ^ nat (- ?u) \<le> \<lfloor>x / ?p\<rfloor>" by (simp add: le_floor_iff)
  with round_half_even_ge_floor [of "x / ?p"]
  have "k * 2 ^ nat (- ?u) \<le> round_half_even (x / ?p)" by linarith
  then have "(of_int (k * 2 ^ nat (- ?u)) :: real) \<le> of_int (round_half_even (x / ?p))"
    by (simp only: of_int_le_iff)
  then have "of_int k / ?p \<le> of_int (round_half_even (x / ?p))"
    by (simp only: scaled_int [OF assms(2)])
  then have "of_int k / ?p * ?p \<le> of_int (round_half_even (x / ?p)) * ?p"
    using p by (intro mult_right_mono) simp_all
  then show ?thesis using p by (simp add: float64_def)
qed

lemma float64_of_int:
  assumes "\<bar>k\<bar> < 2 ^ 53"
  shows "float64 (of_int k) = of_int k"
proof -
  have "\<bar>of_int k :: real\<bar> < 2 powi 53"
  proof -
    have "\<bar>of_int k :: real\<bar> = of_int \<bar>k\<bar>" by simp
    also have "\<dots> < of_int (2 ^ 53)" using assms by (simp only: of_int_less_iff)
    finally show ?thesis by simp
  qed
  then have "ulp_exponent (of_int k) \<le> 53 - 53" by (intro ulp_exponent_le) simp_all
  then have u: "ulp_exponent (of_int k) \<le> 0" by simp
  have "float64 (of_int k) \<le> of_int k" by (rule float64_le_int [OF _ u]) simp
  moreover have "of_int k \<le> float64 (of_int k)" by (rule float64_ge_int [OF _ u]) simp
  ultimately show ?thesis by simp
qed


lemma Minute_pos: "0 < Minute" by (simp add: Minute_def)

lemma Minute_real: "(60 * 1000000000 :: real) = of_int Minute" by (simp add: Minute_def)

lemma rounding_slack: "(2::real) powi (- 54) + 2 powi (- 36) < 1 / of_int Minute"
  by (simp add: Minute_def power_int_minus)

lemma float64_error_below:
  assumes "- 1021 \<le> k" and "\<bar>x\<bar> < 2 powi k"
  shows "\<bar>float64 x - x\<bar> \<le> 2 powi (k - 54)" and "ulp_exponent x \<le> k - 53"
proof -
  show u: "ulp_exponent x \<le> k - 53" by (rule ulp_exponent_le [OF assms])
  then have "(2::real) powi ulp_exponent x \<le> 2 powi (k - 53)"
    by (rule power_int_increasing) simp
  then have "(2::real) powi ulp_exponent x / 2 \<le> 2 powi (k - 53) / 2" by simp
  also have "(2::real) powi (k - 53) / 2 = 2 powi (k - 54)"
  proof -
    have "(2::real) powi (k - 53) = 2 powi (k - 54 + 1)" by simp
    also have "\<dots> = 2 powi (k - 54) * 2" by (subst power_int_add) simp_all
    finally show ?thesis by simp
  qed
  finally show "\<bar>float64 x - x\<bar> \<le> 2 powi (k - 54)"
    using float64_error [of x] by linarith
qed

lemma minute_fraction:
  assumes "\<bar>r\<bar> < Minute"
  shows "\<bar>float64 (float64 (of_int r) / (60 * 1000000000)) - of_int r / of_int Minute\<bar>
           \<le> 2 powi (- 54)"
    and "ulp_exponent (of_int r / of_int Minute) \<le> 0"
    and "\<bar>of_int r / (of_int Minute :: real)\<bar> \<le> 1 - 1 / of_int Minute"
proof -
  have r53: "\<bar>r\<bar> < 2 ^ 53" using assms by (simp add: Minute_def)
  have e: "float64 (of_int r) = of_int r" by (rule float64_of_int [OF r53])
  have M: "0 < (of_int Minute :: real)" using Minute_pos by simp
  have "\<bar>r\<bar> \<le> Minute - 1" using assms by simp
  then have "(of_int \<bar>r\<bar> :: real) \<le> of_int (Minute - 1)" by (simp only: of_int_le_iff)
  then have "(of_int \<bar>r\<bar> :: real) / of_int Minute \<le> of_int (Minute - 1) / of_int Minute"
    using M by (simp add: divide_right_mono)
  also have "\<dots> = 1 - 1 / of_int Minute" using M by (simp add: field_simps)
  finally show b: "\<bar>of_int r / (of_int Minute :: real)\<bar> \<le> 1 - 1 / of_int Minute"
    using M by simp
  have "1 / (of_int Minute :: real) > 0" using M by simp
  with b have "\<bar>of_int r / (of_int Minute :: real)\<bar> < 1" by linarith
  then have lt: "\<bar>of_int r / (of_int Minute :: real)\<bar> < 2 powi 0" by simp
  from float64_error_below [OF _ lt]
  have "\<bar>float64 (of_int r / of_int Minute) - of_int r / of_int Minute\<bar> \<le> 2 powi (0 - 54)"
    and u: "ulp_exponent (of_int r / of_int Minute) \<le> 0 - 53" by simp_all
  then show "\<bar>float64 (float64 (of_int r) / (60 * 1000000000)) - of_int r / of_int Minute\<bar>
           \<le> 2 powi (- 54)"
    unfolding e Minute_real by simp
  from u show "ulp_exponent (of_int r / of_int Minute) \<le> 0" by simp
qed


lemma float_sum_error:
  assumes "\<bar>q\<bar> < 2 ^ 18" and "\<bar>r\<bar> < Minute"
  shows "\<bar>float64 (of_int q + float64 (of_int r / of_int Minute))
           - (of_int q + float64 (of_int r / of_int Minute))\<bar> \<le> 2 powi (- 36)"
    and "ulp_exponent (of_int q + float64 (of_int r / of_int Minute)) \<le> 0"
proof -
  let ?x = "of_int r / (of_int Minute :: real)"
  let ?s = "of_int q + float64 ?x"
  have M: "0 < 1 / (of_int Minute :: real)" using Minute_pos by simp
  have e1: "\<bar>float64 ?x - ?x\<bar> \<le> 2 powi (- 54)"
    using minute_fraction(1) [OF assms(2)] float64_of_int [of r] assms(2)
    by (simp add: Minute_def)
  have b1: "\<bar>?x\<bar> \<le> 1 - 1 / of_int Minute" by (rule minute_fraction(3) [OF assms(2)])
  have "\<bar>q\<bar> \<le> 2 ^ 18 - 1" using assms(1) by simp
  then have "(of_int \<bar>q\<bar> :: real) \<le> of_int (2 ^ 18 - 1)" by (simp only: of_int_le_iff)
  then have q: "\<bar>of_int q :: real\<bar> \<le> 2 ^ 18 - 1" by simp
  have "\<bar>?s\<bar> \<le> \<bar>of_int q :: real\<bar> + \<bar>float64 ?x\<bar>" by (rule abs_triangle_ineq)
  also have "\<bar>float64 ?x\<bar> \<le> \<bar>?x\<bar> + 2 powi (- 54)" using e1 by linarith
  finally have "\<bar>?s\<bar> \<le> 2 ^ 18 - 1 + (1 - 1 / of_int Minute + 2 powi (- 54))"
    using q b1 by linarith
  moreover have "(2::real) powi (- 54) < 1 / of_int Minute"
  proof -
    have "0 < (2::real) powi (- 36)" by simp
    with rounding_slack show ?thesis by linarith
  qed
  ultimately have "\<bar>?s\<bar> < 2 ^ 18" by linarith
  then have lt: "\<bar>?s\<bar> < 2 powi 18" by simp
  from float64_error_below [OF _ lt]
  have "\<bar>float64 ?s - ?s\<bar> \<le> 2 powi (18 - 54)" and "ulp_exponent ?s \<le> 18 - 53" by simp_all
  then show "\<bar>float64 ?s - ?s\<bar> \<le> 2 powi (- 36)" and "ulp_exponent ?s \<le> 0" by simp_all
qed

lemma float_sum_nonneg:
  assumes "0 \<le> q" and "q < 2 ^ 18" and "0 \<le> r" and "r < Minute"
  shows "of_int q \<le> float64 (of_int q + float64 (of_int r / of_int Minute))"
    and "float64 (of_int q + float64 (of_int r / of_int Minute)) < of_int q + 1"
proof -
  let ?x = "of_int r / (of_int Minute :: real)"
  let ?s = "of_int q + float64 ?x"
  have aq: "\<bar>q\<bar> < 2 ^ 18" and ar: "\<bar>r\<bar> < Minute" using assms by simp_all
  have M: "0 < (of_int Minute :: real)" using Minute_pos by simp
  have x0: "of_int 0 \<le> ?x" using assms(3) M by simp
  have f0: "0 \<le> float64 ?x"
    using float64_ge_int [OF x0 minute_fraction(2) [OF ar]] by simp
  have e1: "\<bar>float64 ?x - ?x\<bar> \<le> 2 powi (- 54)"
    using minute_fraction(1) [OF ar] float64_of_int [of r] ar by (simp add: Minute_def)
  have b1: "\<bar>?x\<bar> \<le> 1 - 1 / of_int Minute" by (rule minute_fraction(3) [OF ar])
  have "of_int q \<le> ?s" using f0 by simp
  then show "of_int q \<le> float64 ?s" by (rule float64_ge_int [OF _ float_sum_error(2) [OF aq ar]])
  have "float64 ?s \<le> ?s + 2 powi (- 36)" using float_sum_error(1) [OF aq ar] by linarith
  also have "?s \<le> of_int q + (1 - 1 / of_int Minute + 2 powi (- 54))"
    using e1 b1 by linarith
  finally show "float64 ?s < of_int q + 1" using rounding_slack by linarith
qed

lemma float_sum_nonpos:
  assumes "q \<le> 0" and "- (2 ^ 18) < q" and "r \<le> 0" and "- Minute < r"
  shows "float64 (of_int q + float64 (of_int r / of_int Minute)) \<le> of_int q"
    and "of_int q - 1 < float64 (of_int q + float64 (of_int r / of_int Minute))"
proof -
  let ?x = "of_int r / (of_int Minute :: real)"
  let ?s = "of_int q + float64 ?x"
  have aq: "\<bar>q\<bar> < 2 ^ 18" and ar: "\<bar>r\<bar> < Minute" using assms by simp_all
  have M: "0 < (of_int Minute :: real)" using Minute_pos by simp
  have x0: "?x \<le> of_int 0" using assms(3) M by (simp add: divide_nonpos_pos)
  have f0: "float64 ?x \<le> 0"
    using float64_le_int [OF x0 minute_fraction(2) [OF ar]] by simp
  have e1: "\<bar>float64 ?x - ?x\<bar> \<le> 2 powi (- 54)"
    using minute_fraction(1) [OF ar] float64_of_int [of r] ar by (simp add: Minute_def)
  have b1: "\<bar>?x\<bar> \<le> 1 - 1 / of_int Minute" by (rule minute_fraction(3) [OF ar])
  have "?s \<le> of_int q" using f0 by simp
  then show "float64 ?s \<le> of_int q" by (rule float64_le_int [OF _ float_sum_error(2) [OF aq ar]])
  have "?s - 2 powi (- 36) \<le> float64 ?s" using float_sum_error(1) [OF aq ar] by linarith
  moreover have "of_int q - (1 - 1 / of_int Minute + 2 powi (- 54)) \<le> ?s"
    using e1 b1 by linarith
  ultimately show "of_int q - 1 < float64 ?s" using rounding_slack by linarith
qed

lemma Minutes_sum:
  assumes "\<bar>d sdiv Minute\<bar> < 2 ^ 53" and "\<bar>d smod Minute\<bar> < 2 ^ 53"
  shows "Minutes d = float64 (of_int (d sdiv Minute)
                              + float64 (of_int (d smod Minute) / of_int Minute))"
  unfolding Minutes_def float64_of_int [OF assms(1)] float64_of_int [OF assms(2)] Minute_real ..


lemma sdiv_nonneg: "0 \<le> d \<Longrightarrow> 0 < m \<Longrightarrow> d sdiv m = d div (m::int)"
  by (simp add: signed_divide_int_def sgn_if)

lemma smod_nonneg: "0 \<le> d \<Longrightarrow> 0 < m \<Longrightarrow> d smod m = d mod (m::int)"
  by (simp add: signed_modulo_int_def sgn_if)

lemma sdiv_neg: "0 < e \<Longrightarrow> 0 < m \<Longrightarrow> (- e) sdiv m = - (e div (m::int))"
  by (simp add: signed_divide_int_def sgn_if)

lemma smod_neg: "0 < e \<Longrightarrow> 0 < m \<Longrightarrow> (- e) smod m = - (e mod (m::int))"
  by (simp add: signed_modulo_int_def sgn_if)

lemma quotient_small:
  assumes "0 \<le> e" and "e < 2 ^ 18 * Minute"
  shows "0 \<le> e div Minute" and "e div Minute < 2 ^ 18"
    and "0 \<le> e mod Minute" and "e mod Minute < Minute"
  using assms by (simp_all add: Minute_def pos_imp_zdiv_nonneg_iff)

lemma Minute_small: "Minute < 2 ^ 53" by (simp add: Minute_def)

lemma quotient_bound_small: "(2::int) ^ 18 < 2 ^ 53" by simp

lemma go_int_Minutes_nonneg:
  assumes "0 \<le> d" and "d < 2 ^ 18 * Minute"
  shows "go_int (Minutes d) = d div Minute"
proof -
  note qs = quotient_small [OF assms]
  have q: "d sdiv Minute = d div Minute"
    by (rule sdiv_nonneg [OF assms(1) Minute_pos])
  have r: "d smod Minute = d mod Minute"
    by (rule smod_nonneg [OF assms(1) Minute_pos])
  have a1: "\<bar>d sdiv Minute\<bar> < 2 ^ 53"
    unfolding q using qs(1,2) quotient_bound_small by linarith
  have a2: "\<bar>d smod Minute\<bar> < 2 ^ 53"
    unfolding r using qs(3,4) Minute_small by linarith
  have m: "Minutes d = float64 (of_int (d div Minute)
                              + float64 (of_int (d mod Minute) / of_int Minute))"
    using Minutes_sum [OF a1 a2] unfolding q r .
  have lo: "of_int (d div Minute) \<le> Minutes d"
    unfolding m by (rule float_sum_nonneg(1) [OF qs])
  have hi: "Minutes d < of_int (d div Minute) + 1"
    unfolding m by (rule float_sum_nonneg(2) [OF qs])
  have fl: "\<lfloor>Minutes d\<rfloor> = d div Minute" by (rule floor_unique [OF lo hi])
  have "0 \<le> (of_int (d div Minute) :: real)" using qs(1) by (simp only: of_int_0_le_iff)
  with lo have "0 \<le> Minutes d" by linarith
  then have "go_int (Minutes d) = \<lfloor>Minutes d\<rfloor>" by (simp only: go_int_def not_less [symmetric] if_False)
  with fl show ?thesis by (simp only:)
qed

lemma go_int_Minutes_neg:
  assumes "0 < e" and "e < 2 ^ 18 * Minute"
  shows "go_int (Minutes (- e)) = - (e div Minute)"
proof -
  have e0: "0 \<le> e" using assms(1) by simp
  note qs = quotient_small [OF e0 assms(2)]
  have q: "(- e) sdiv Minute = - (e div Minute)"
    by (rule sdiv_neg [OF assms(1) Minute_pos])
  have r: "(- e) smod Minute = - (e mod Minute)"
    by (rule smod_neg [OF assms(1) Minute_pos])
  have a1: "\<bar>(- e) sdiv Minute\<bar> < 2 ^ 53"
    unfolding q using qs(1,2) quotient_bound_small by linarith
  have a2: "\<bar>(- e) smod Minute\<bar> < 2 ^ 53"
    unfolding r using qs(3,4) Minute_small by linarith
  have m: "Minutes (- e) = float64 (of_int (- (e div Minute))
                              + float64 (of_int (- (e mod Minute)) / of_int Minute))"
    using Minutes_sum [OF a1 a2] unfolding q r .
  have c: "- (e div Minute) \<le> 0" "- (2 ^ 18) < - (e div Minute)"
      "- (e mod Minute) \<le> 0" "- Minute < - (e mod Minute)"
    using qs by linarith+
  have hi: "Minutes (- e) \<le> of_int (- (e div Minute))"
    unfolding m by (rule float_sum_nonpos(1) [OF c])
  have lo: "of_int (- (e div Minute)) - 1 < Minutes (- e)"
    unfolding m by (rule float_sum_nonpos(2) [OF c])
  have ce: "\<lceil>Minutes (- e)\<rceil> = - (e div Minute)"
    by (rule ceiling_unique [OF lo hi])
  have "(of_int (- (e div Minute)) :: real) \<le> 0" using c(1) by (simp only: of_int_le_0_iff)
  with hi have np: "Minutes (- e) \<le> 0" by linarith
  have "go_int (Minutes (- e)) = \<lceil>Minutes (- e)\<rceil>"
  proof (cases "Minutes (- e) < 0")
    case True
    then show ?thesis by (simp only: go_int_def if_True)
  next
    case False
    with np have z: "Minutes (- e) = 0" by linarith
    show ?thesis unfolding go_int_def z by simp
  qed
  with ce show ?thesis by (simp only:)
qed

lemma go_int_Minutes:
  assumes "\<bar>d\<bar> < 2 ^ 18 * Minute"
  shows "go_int (Minutes d) = d sdiv Minute"
proof (cases "0 \<le> d")
  case True
  with assms have "d < 2 ^ 18 * Minute" by simp
  from go_int_Minutes_nonneg [OF True this] True show ?thesis
    using Minute_pos by (simp add: sdiv_nonneg)
next
  case False
  then have e: "0 < - d" by simp
  with assms have b: "- d < 2 ^ 18 * Minute" by simp
  have "go_int (Minutes (- (- d))) = - ((- d) div Minute)"
    by (rule go_int_Minutes_neg [OF e b])
  moreover have "(- (- d)) sdiv Minute = - ((- d) div Minute)"
    by (rule sdiv_neg [OF e Minute_pos])
  ultimately show ?thesis by simp
qed

lemma Sub_in_range:
  "u \<le> t \<Longrightarrow> t - u \<le> maxDuration \<Longrightarrow> Sub t u = t - u"
  by (simp add: Sub_def minDuration_def)

lemma duration_truncated:
  assumes "\<bar>Sub t u\<bar> < 2 ^ 18 * Minute"
  shows "duration t u = Sub t u sdiv Minute"
  unfolding duration_def by (rule go_int_Minutes [OF assms])

lemma duration_floor:
  assumes "u \<le> t" and "t - u < 2 ^ 18 * Minute"
  shows "duration t u = \<lfloor>of_int (t - u) / (of_int Minute :: real)\<rfloor>"
proof -
  have "t - u \<le> maxDuration" using assms(2) by (simp add: maxDuration_def Minute_def)
  then have s: "Sub t u = t - u" by (rule Sub_in_range [OF assms(1)])
  have "0 \<le> t - u" using assms(1) by simp
  from go_int_Minutes_nonneg [OF this assms(2)]
  have "duration t u = (t - u) div Minute" by (simp add: duration_def s)
  also have "\<dots> = \<lfloor>of_int (t - u) / (of_int Minute :: real)\<rfloor>"
    by (rule floor_divide_of_int_eq [symmetric])
  finally show ?thesis .
qed

lemma duration_47_minutes: "duration (38820 * 1000000000) (36000 * 1000000000) = 47"
proof -
  have "duration (38820 * 1000000000) (36000 * 1000000000)
          = \<lfloor>of_int (38820 * 1000000000 - 36000 * 1000000000) / (of_int Minute :: real)\<rfloor>"
    by (rule duration_floor) (simp_all add: Minute_def)
  also have "\<dots> = (38820 * 1000000000 - 36000 * 1000000000) div Minute"
    by (rule floor_divide_of_int_eq)
  also have "\<dots> = 47" by (simp add: Minute_def)
  finally show ?thesis .
qed

lemma duration_truncates_towards_zero: "duration 0 (90 * 1000000000) = -1"
proof -
  have s: "Sub 0 (90 * 1000000000) = - 90000000000"
    by (simp add: Sub_def minDuration_def maxDuration_def)
  have "duration 0 (90 * 1000000000) = (- 90000000000) sdiv Minute"
    unfolding duration_def s by (rule go_int_Minutes) (simp add: Minute_def)
  also have "(- 90000000000) sdiv Minute = - (90000000000 div Minute)"
    by (rule sdiv_neg [OF _ Minute_pos]) simp
  also have "\<dots> = - 1" by (simp add: Minute_def)
  finally show ?thesis .
qed

text \<open>
  The span of \<open>2 ^ 18\<close> minutes is where the rounding starts to show: one nanosecond
  short of 262145 minutes, the sum is rounded up to the next minute.
\<close>

lemma binade_below_eq:
  assumes "2 powi e \<le> x" and "x < 2 powi (e + 1)" and "- 1074 \<le> e"
  shows "e < int n - 1074 \<Longrightarrow> binade_below n x = e"
proof (induction n)
  case 0
  with assms(3) show ?case by simp
next
  case (Suc n)
  show ?case
  proof (cases "2 powi (int n - 1074) \<le> x")
    case True
    then have "(2::real) powi (int n - 1074) < 2 powi (e + 1)" using assms(2) by simp
    then have "int n - 1074 < e + 1"
    proof -
      have "\<not> e + 1 \<le> int n - 1074"
      proof
        assume "e + 1 \<le> int n - 1074"
        then have "(2::real) powi (e + 1) \<le> 2 powi (int n - 1074)"
          by (rule power_int_increasing) simp
        with \<open>(2::real) powi (int n - 1074) < 2 powi (e + 1)\<close> show False by simp
      qed
      then show ?thesis by simp
    qed
    with Suc.prems have "int n - 1074 = e" by simp
    with True show ?thesis by simp
  next
    case False
    then have "(2::real) powi e < 2 powi (int n - 1074)" using assms(1) by simp
    then have "e < int n - 1074"
    proof -
      have "\<not> int n - 1074 \<le> e"
      proof
        assume "int n - 1074 \<le> e"
        then have "(2::real) powi (int n - 1074) \<le> 2 powi e"
          by (rule power_int_increasing) simp
        with \<open>(2::real) powi e < 2 powi (int n - 1074)\<close> show False by simp
      qed
      then show ?thesis by simp
    qed
    with False Suc.IH show ?thesis by simp
  qed
qed

lemma binade_eq:
  assumes "2 powi e \<le> \<bar>x\<bar>" and "\<bar>x\<bar> < 2 powi (e + 1)" and "- 1074 \<le> e" and "e \<le> 1023"
  shows "binade x = e"
  unfolding binade_def using assms(4) by (intro binade_below_eq [OF assms(1-3)]) simp

lemma last_nanosecond_fraction:
  "float64 (59999999999 / 60000000000) = 9007199254590872 / 9007199254740992"
proof -
  have b: "binade (59999999999 / 60000000000) = - 1"
    by (rule binade_eq) (simp_all add: power_int_minus)
  show ?thesis
    unfolding float64_def ulp_exponent_def b
    by (simp add: power_int_minus round_half_even_def)
qed


lemma last_nanosecond_sum:
  "float64 (262144 + 9007199254590872 / 9007199254740992) = 262145"
proof -
  have b: "binade (262144 + 9007199254590872 / 9007199254740992) = 18"
    by (rule binade_eq) simp_all
  show ?thesis
    unfolding float64_def ulp_exponent_def b
    by (simp add: power_int_minus round_half_even_def)
qed

lemma Minutes_rounds_up: "Minutes 15728699999999999 = 262145"
proof -
  have q: "(15728699999999999 :: int) sdiv Minute = 262144"
    using sdiv_nonneg [of 15728699999999999 Minute] Minute_pos by (simp add: Minute_def)
  have r: "(15728699999999999 :: int) smod Minute = 59999999999"
    using smod_nonneg [of 15728699999999999 Minute] Minute_pos by (simp add: Minute_def)
  have e1: "float64 (of_int 262144) = of_int 262144" by (rule float64_of_int) simp
  have e2: "float64 (of_int 59999999999) = of_int 59999999999" by (rule float64_of_int) simp
  have "Minutes 15728699999999999 = float64 (262144 + float64 (59999999999 / 60000000000))"
    unfolding Minutes_def q r e1 e2 by simp
  also have "\<dots> = float64 (262144 + 9007199254590872 / 9007199254740992)"
    by (simp only: last_nanosecond_fraction)
  also have "\<dots> = 262145" by (rule last_nanosecond_sum)
  finally show ?thesis .
qed

lemma duration_rounds_up: "duration 15728699999999999 0 = 262145"
proof -
  have "Sub 15728699999999999 0 = 15728699999999999"
    by (simp add: Sub_def minDuration_def maxDuration_def)
  then show ?thesis
    by (simp add: duration_def Minutes_rounds_up go_int_def)
qed

section \<open>Facts about the tables and the transitions\<close>

lemma find_row_key: "find_row key rows i = Some r \<Longrightarrow> key r = i"
  by (auto simp: find_row_def find_Some_iff)

lemma find_row_save_same:
  "find_row key rows i = Some r0 \<Longrightarrow> key r = i \<Longrightarrow> find_row key (save_row key r rows) i = Some r"
  unfolding find_row_def save_row_def
  by (induction rows) (auto split: if_splits)

lemma find_row_save_other:
  "key r \<noteq> i \<Longrightarrow> find_row key (save_row key r rows) i = find_row key rows i"
  unfolding find_row_def save_row_def
  by (induction rows) (auto split: if_splits)

lemma status_distinct:
  "AssignmentStatusAssigned \<noteq> AssignmentStatusAccepted"
  "AssignmentStatusAssigned \<noteq> AssignmentStatusRejected"
  "AssignmentStatusAssigned \<noteq> AssignmentStatusInProgress"
  "AssignmentStatusAssigned \<noteq> AssignmentStatusCompleted"
  "AssignmentStatusAccepted \<noteq> AssignmentStatusRejected"
  "AssignmentStatusAccepted \<noteq> AssignmentStatusInProgress"
  "AssignmentStatusAccepted \<noteq> AssignmentStatusCompleted"
  "AssignmentStatusRejected \<noteq> AssignmentStatusInProgress"
  "AssignmentStatusRejected \<noteq> AssignmentStatusCompleted"
  "AssignmentStatusInProgress \<noteq> AssignmentStatusCompleted"
  by (simp_all add: AssignmentStatusAssigned_def AssignmentStatusAccepted_def
      AssignmentStatusRejected_def AssignmentStatusInProgress_def AssignmentStatusCompleted_def)

lemmas op_defs = AcceptAssignment_def RejectAssignment_def StartAssignment_def CompleteAssignment_def

lemma unauthorized_all:
  assumes "assignment_GetByID env db aid = Some a" and "a_WorkerID a \<noteq> w"
  shows "run op env db aid w = (Inl ''unauthorized access to assignment'', db, [])"
  using assms by (cases op) (simp_all add: op_defs)

lemma wrong_status:
  assumes "assignment_GetByID env db aid = Some a" and "a_WorkerID a = w"
    and "a_Status a \<noteq> spec_precondition op"
  shows "\<exists>msg. run op env db aid w = (Inl msg, db, []) \<and> kind_of msg = Some InvalidStateTransition"
  using assms by (cases op) (simp_all add: op_defs kind_of_def AssignmentStatusAssigned_def AssignmentStatusAccepted_def
      AssignmentStatusRejected_def AssignmentStatusInProgress_def AssignmentStatusCompleted_def)


lemmas status_defs = AssignmentStatusAssigned_def AssignmentStatusAccepted_def
      AssignmentStatusRejected_def AssignmentStatusInProgress_def AssignmentStatusCompleted_def
      BookingStatusConfirmed_def BookingStatusInProgress_def BookingStatusCompleted_def

lemmas repo_defs = assignment_GetByID_def assignment_Update_def booking_GetByID_def booking_Update_def

lemma stats_frame:
  "assignments (fst (update_worker_statistics env db a b)) = assignments db"
  "bookings (fst (update_worker_statistics env db a b)) = bookings db"
  by (auto simp: update_worker_statistics_def worker_IncrementCompletedJob_def split: option.splits)

lemma assignment_key_update [simp]:
  "assignment_key (a\<lparr>a_Status := s\<rparr>) = assignment_key a"
  "assignment_key (a\<lparr>a_AcceptedAt := t\<rparr>) = assignment_key a"
  "assignment_key (a\<lparr>a_RejectedAt := t\<rparr>) = assignment_key a"
  "assignment_key (a\<lparr>a_StartedAt := t\<rparr>) = assignment_key a"
  "assignment_key (a\<lparr>a_CompletedAt := t\<rparr>) = assignment_key a"
  "assignment_key (a\<lparr>a_AcceptanceNotes := n\<rparr>) = assignment_key a"
  "assignment_key (a\<lparr>a_RejectionNotes := n\<rparr>) = assignment_key a"
  "assignment_key (a\<lparr>a_RejectionReason := n\<rparr>) = assignment_key a"
  by (simp_all add: assignment_key_def)

lemma booking_key_update [simp]:
  "booking_key (b\<lparr>b_Status := s\<rparr>) = booking_key b"
  "booking_key (b\<lparr>b_ActualStartTime := t\<rparr>) = booking_key b"
  "booking_key (b\<lparr>b_ActualEndTime := t\<rparr>) = booking_key b"
  "booking_key (b\<lparr>b_ActualDurationMinutes := d\<rparr>) = booking_key b"
  by (simp_all add: booking_key_def)


lemma run_success:
  assumes "run op env db aid w = (Inr a', db', fx)"
  shows "\<exists>a b b'. assignment_GetByID env db aid = Some a \<and> a_WorkerID a = w
      \<and> a_Status a = spec_precondition op
      \<and> a_Status a' = spec_assignment_status op
      \<and> booking_GetByID env db (a_BookingID a) = Some b
      \<and> find_row assignment_key (assignments db') aid = Some a'
      \<and> find_row booking_key (bookings db') (a_BookingID a) = Some b'
      \<and> b_Status b' = spec_booking_status op"
proof (cases op)
  case (Accept n)
  with assms show ?thesis
    by (auto simp: AcceptAssignment_def repo_defs Let_def find_row_save_same find_row_key status_defs
        split: option.splits if_splits)
next
  case (Reject r n)
  with assms show ?thesis
    by (auto simp: RejectAssignment_def repo_defs Let_def find_row_save_same find_row_key status_defs
        split: option.splits if_splits)
next
  case (Start n)
  with assms show ?thesis
    by (auto simp: StartAssignment_def repo_defs Let_def find_row_save_same find_row_key status_defs
        split: option.splits if_splits)
next
  case (Complete n m p)
  with assms show ?thesis
    by (auto simp: CompleteAssignment_def repo_defs Let_def find_row_save_same find_row_key status_defs stats_frame
        split: option.splits if_splits)
qed

lemma run_failure:
  assumes "run op env db aid w = (Inl msg, db', fx)"
  shows "bookings db' = bookings db \<and> workers db' = workers db \<and>
     (if msg = ''failed to update booking status''
      then \<exists>a a'. assignment_GetByID env db aid = Some a \<and> a_WorkerID a = w
             \<and> a_Status a = spec_precondition op
             \<and> find_row assignment_key (assignments db') aid = Some a'
             \<and> a_Status a' = spec_assignment_status op
      else db' = db)"
proof (cases op)
  case (Accept n)
  with assms show ?thesis
    by (auto simp: AcceptAssignment_def repo_defs Let_def find_row_save_same find_row_key status_defs
        split: option.splits if_splits)
next
  case (Reject r n)
  with assms show ?thesis
    by (auto simp: RejectAssignment_def repo_defs Let_def find_row_save_same find_row_key status_defs
        split: option.splits if_splits)
next
  case (Start n)
  with assms show ?thesis
    by (auto simp: StartAssignment_def repo_defs Let_def find_row_save_same find_row_key status_defs
        split: option.splits if_splits)
next
  case (Complete n m p)
  with assms show ?thesis
    by (auto simp: CompleteAssignment_def repo_defs Let_def find_row_save_same find_row_key status_defs stats_frame
        split: option.splits if_splits)
qed

lemma AcceptAssignment_halves:
  "AcceptAssignment env db aid w notes =
     (case accept_load env db aid w of
        Inl e \<Rightarrow> (Inl e, db, [])
      | Inr a0 \<Rightarrow> accept_store env db notes a0)"
  by (simp add: AcceptAssignment_def accept_load_def accept_store_def split: option.splits)

lemma find_map_stable:
  assumes "find P xs = Some x" and "\<And>y. P (f y) = P y"
  shows "find P (map f xs) = Some (f x)"
  using assms by (induction xs) (auto split: if_splits)

lemma earnings_update [simp]:
  "earnings (b\<lparr>b_Status := s\<rparr>) = earnings b"
  "earnings (b\<lparr>b_ActualEndTime := t\<rparr>) = earnings b"
  "earnings (b\<lparr>b_ActualDurationMinutes := d\<rparr>) = earnings b"
  by (simp_all add: earnings_def split: option.splits)

lemma stats_workers:
  assumes "worker_GetByUserID env db uid = Some wk" and "\<not> increment_fails env"
    and "worker_IncrementCompletedJob env db (worker_key wk) e = Some db'"
  shows "find_row w_UserID (workers db') uid = Some (bump_stats e wk)"
proof -
  have f: "find (\<lambda>r. w_UserID r = uid) (workers db) = Some wk"
    using assms(1) by (simp add: worker_GetByUserID_def find_row_def split: if_splits)
  have k: "(if worker_key wk = worker_key wk then bump_stats e wk else wk) = bump_stats e wk" by simp
  have "find (\<lambda>r. w_UserID r = uid)
          (map (\<lambda>w. if worker_key w = worker_key wk then bump_stats e w else w) (workers db))
        = Some (if worker_key wk = worker_key wk then bump_stats e wk else wk)"
    by (rule find_map_stable [OF f]) (simp add: bump_stats_def)
  then show ?thesis
    using assms(2,3) by (auto simp: worker_IncrementCompletedJob_def find_row_def)
qed

lemmas demo_defs = demo_model_def demo_user_def demo_service_def demo_booking_def
  demo_assignment_def demo_worker_def demo_db_def demo_env_def

lemmas key_defs = assignment_key_def booking_key_def worker_key_def

section \<open>Ownership\<close>

text \<open>
  Claim C3. Whatever the operation (Accept, Reject, Start, Complete or the single
  lookup) and whatever the status of the assignment, a caller whose worker id is not
  the assignment's gets the error ``unauthorized access to assignment'', of kind
  Unauthorized; the database is left as it was and no port is called. The ownership
  check comes before the status check, since the status plays no part in the outcome,
  and the outcome is a constant that carries nothing of the assignment.
\<close>

theorem unauthorized_before_state_check:
  assumes "assignment_GetByID env db aid = Some a" and "a_WorkerID a \<noteq> w"
  shows "run op env db aid w = (Inl ''unauthorized access to assignment'', db, [])
       \<and> GetWorkerAssignment env db aid w = Inl ''unauthorized access to assignment''
       \<and> kind_of ''unauthorized access to assignment'' = Some Unauthorized"
  using assms unauthorized_all [OF assms, of op]
  by (simp add: GetWorkerAssignment_def kind_of_def)

theorem unauthorized_before_state_check_witness:
  "assignment_GetByID (demo_env 5)
      (demo_db (demo_assignment ''assigned'' (demo_booking ''confirmed'' None None None))) 1
     = Some (demo_assignment ''assigned'' (demo_booking ''confirmed'' None None None))
   \<and> a_WorkerID (demo_assignment ''assigned'' (demo_booking ''confirmed'' None None None)) \<noteq> 8
   \<and> run (Complete [] [] []) (demo_env 5)
        (demo_db (demo_assignment ''assigned'' (demo_booking ''confirmed'' None None None))) 1 8
     = (Inl ''unauthorized access to assignment'',
        demo_db (demo_assignment ''assigned'' (demo_booking ''confirmed'' None None None)), [])"
proof -
  let ?A = "demo_assignment ''assigned'' (demo_booking ''confirmed'' None None None)"
  have h1: "assignment_GetByID (demo_env 5) (demo_db ?A) 1 = Some ?A"
    by (simp add: assignment_GetByID_def find_row_def demo_db_def demo_env_def
        demo_assignment_def demo_model_def assignment_key_def)
  have h2: "a_WorkerID ?A \<noteq> 8"
    by (simp add: demo_assignment_def)
  from unauthorized_before_state_check [OF h1 h2, of "Complete [] [] []"] h1 h2
  show ?thesis by simp
qed

section \<open>The operations on the small database\<close>

lemma demo_load:
  "assignment_GetByID (demo_env t) (demo_db (demo_assignment st bk)) 1 = Some (demo_assignment st bk)"
  by (simp add: assignment_GetByID_def find_row_def demo_db_def demo_env_def
        demo_assignment_def demo_model_def assignment_key_def)

lemma demo_accept:
  "AcceptAssignment (demo_env 5)
      (demo_db (demo_assignment ''assigned'' (demo_booking ''pending'' None None None))) 1 7 ''ok''
   = (Inr ((demo_assignment ''assigned'' (demo_booking ''pending'' None None None))
             \<lparr>a_Status := ''accepted'', a_AcceptedAt := Some 5, a_AcceptanceNotes := ''ok''\<rparr>),
      \<lparr>assignments = [(demo_assignment ''assigned'' (demo_booking ''pending'' None None None))
             \<lparr>a_Status := ''accepted'', a_AcceptedAt := Some 5, a_AcceptanceNotes := ''ok''\<rparr>],
       bookings = [(demo_booking ''pending'' None None None)\<lparr>b_Status := ''confirmed''\<rparr>],
       workers = [demo_worker]\<rparr>,
      [CreateBookingChatRoomWhenWorkerAccepts 10, EnableCallMasking 10,
       SendWorkerAssignmentNotification 1 ''accepted'', NotifyAssignmentAccepted 1 10])"
  by (simp add: AcceptAssignment_def Let_def repo_defs find_row_def save_row_def key_defs status_defs
      demo_db_def demo_env_def demo_assignment_def demo_booking_def demo_model_def)

lemma demo_accept_booking_write_fails:
  "AcceptAssignment ((demo_env 5)\<lparr>booking_update_fails := True\<rparr>)
      (demo_db (demo_assignment ''assigned'' (demo_booking ''pending'' None None None))) 1 7 ''ok''
   = (Inl ''failed to update booking status'',
      \<lparr>assignments = [(demo_assignment ''assigned'' (demo_booking ''pending'' None None None))
             \<lparr>a_Status := ''accepted'', a_AcceptedAt := Some 5, a_AcceptanceNotes := ''ok''\<rparr>],
       bookings = [demo_booking ''pending'' None None None],
       workers = [demo_worker]\<rparr>,
      [LogError ''Failed to update booking status: %v''])"
  by (simp add: AcceptAssignment_def Let_def repo_defs find_row_def save_row_def key_defs status_defs
      demo_db_def demo_env_def demo_assignment_def demo_booking_def demo_model_def)

section \<open>Failure after the assignment write\<close>




section \<open>What an operation returns and stores\<close>

lemma run_returns:
  assumes "run op env db aid w = (Inr a', db', fx)" and "assignment_GetByID env db aid = Some a"
  shows "a' = spec_assignment_mutation op (now env) a"
  using assms
  by (cases op)
     (auto simp: op_defs Let_def status_defs split: option.splits if_splits)

lemma run_stored:
  assumes "assignment_GetByID env db aid = Some a" and "run op env db aid w = (r, db', fx)"
    and "find_row assignment_key (assignments db') aid = Some a''"
  shows "a'' = a \<or> (a_Status a = spec_precondition op
                    \<and> a'' = spec_assignment_mutation op (now env) a)"
proof (cases op)
  case (Accept n)
  with assms show ?thesis
    by (auto simp: AcceptAssignment_def repo_defs Let_def find_row_save_same find_row_key status_defs
        split: option.splits if_splits)
next
  case (Reject rs n)
  with assms show ?thesis
    by (auto simp: RejectAssignment_def repo_defs Let_def find_row_save_same find_row_key status_defs
        split: option.splits if_splits)
next
  case (Start n)
  with assms show ?thesis
    by (auto simp: StartAssignment_def repo_defs Let_def find_row_save_same find_row_key status_defs
        split: option.splits if_splits)
next
  case (Complete n m p)
  with assms show ?thesis
    by (auto simp: CompleteAssignment_def repo_defs Let_def find_row_save_same find_row_key status_defs
        stats_frame split: option.splits if_splits)
qed

lemma run_commits:
  assumes "assignment_GetByID env db aid = Some a" and "a_WorkerID a = w"
    and "a_Status a = spec_precondition op" and "\<not> assignment_update_fails env"
    and "booking_GetByID env db (a_BookingID a) = Some b" and "\<not> booking_update_fails env"
  shows "\<exists>a' db' fx. run op env db aid w = (Inr a', db', fx)"
  using assms
  by (cases op)
     (auto simp: op_defs repo_defs Let_def status_defs split: option.splits if_splits)

lemma mutation_preserves:
  assumes "timestamp_invariant a" and "status_consistent a" and "a_Status a = spec_precondition op"
  shows "timestamp_invariant (spec_assignment_mutation op t a)
       \<and> status_consistent (spec_assignment_mutation op t a)"
  using assms
  by (cases op) (auto simp: timestamp_invariant_def status_consistent_def status_defs)

lemma demo_booking_load:
  "booking_GetByID (demo_env t) (demo_db (demo_assignment st (demo_booking bs started q pr))) 10
     = Some (demo_booking bs started q pr)"
  by (simp add: booking_GetByID_def find_row_def demo_db_def demo_env_def
        demo_assignment_def demo_booking_def demo_model_def booking_key_def)

lemma demo_accept_rejected_before:
  "AcceptAssignment (demo_env 5)
      (demo_db ((demo_assignment ''assigned'' (demo_booking ''pending'' None None None))
                  \<lparr>a_RejectedAt := Some 3\<rparr>)) 1 7 ''ok''
   = (Inr ((demo_assignment ''assigned'' (demo_booking ''pending'' None None None))
             \<lparr>a_Status := ''accepted'', a_AcceptedAt := Some 5, a_RejectedAt := Some 3,
               a_AcceptanceNotes := ''ok''\<rparr>),
      \<lparr>assignments = [(demo_assignment ''assigned'' (demo_booking ''pending'' None None None))
             \<lparr>a_Status := ''accepted'', a_AcceptedAt := Some 5, a_RejectedAt := Some 3,
               a_AcceptanceNotes := ''ok''\<rparr>],
       bookings = [(demo_booking ''pending'' None None None)\<lparr>b_Status := ''confirmed''\<rparr>],
       workers = [demo_worker]\<rparr>,
      [CreateBookingChatRoomWhenWorkerAccepts 10, EnableCallMasking 10,
       SendWorkerAssignmentNotification 1 ''accepted'', NotifyAssignmentAccepted 1 10])"
  by (simp add: AcceptAssignment_def Let_def repo_defs find_row_def save_row_def key_defs status_defs
      demo_db_def demo_env_def demo_assignment_def demo_booking_def demo_model_def)

section \<open>Side effects after the commit\<close>

text \<open>
  Claim C7. Once the assignment and the booking can be written (the assignment is
  found, owned and in the required status, the booking is found and neither write
  fails), the operation returns the updated assignment and no error, and the stored
  assignment and booking carry the transition, whatever the outcome of the chat room
  calls, of the worker lookup and the statistics increment, and of the location
  tracking calls: \<open>f1\<close> to \<open>f6\<close> are arbitrary.
\<close>

theorem side_effect_failures_not_surfaced:
  assumes "assignment_GetByID env db aid = Some a" and "a_WorkerID a = w"
    and "a_Status a = spec_precondition op" and "\<not> assignment_update_fails env"
    and "booking_GetByID env db (a_BookingID a) = Some b" and "\<not> booking_update_fails env"
  shows "\<exists>db' fx.
           run op (env\<lparr>chat_create_fails := f1, worker_get_fails := f2, increment_fails := f3,
                       chat_close_fails := f4, start_tracking_fails := f5,
                       stop_tracking_fails := f6\<rparr>) db aid w
             = (Inr (spec_assignment_mutation op (now env) a), db', fx)
         \<and> find_row assignment_key (assignments db') aid
             = Some (spec_assignment_mutation op (now env) a)
         \<and> (\<exists>b'. find_row booking_key (bookings db') (a_BookingID a) = Some b'
                \<and> b_Status b' = spec_booking_status op)"
proof -
  let ?env = "env\<lparr>chat_create_fails := f1, worker_get_fails := f2, increment_fails := f3,
                       chat_close_fails := f4, start_tracking_fails := f5,
                       stop_tracking_fails := f6\<rparr>"
  have g: "assignment_GetByID ?env db aid = Some a"
    using assms(1) by (simp add: assignment_GetByID_def)
  have bg: "booking_GetByID ?env db (a_BookingID a) = Some b"
    using assms(5) by (simp add: booking_GetByID_def)
  have "\<not> assignment_update_fails ?env" "\<not> booking_update_fails ?env"
    using assms(4,6) by simp_all
  with g bg assms(2,3) obtain a' db' fx where r: "run op ?env db aid w = (Inr a', db', fx)"
    using run_commits [of ?env db aid a w op b] by blast
  have a': "a' = spec_assignment_mutation op (now env) a"
    using run_returns [OF r g] by simp
  from run_success [OF r] g
  have "find_row assignment_key (assignments db') aid = Some a'"
    and "\<exists>b'. find_row booking_key (bookings db') (a_BookingID a) = Some b'
                \<and> b_Status b' = spec_booking_status op"
    by auto
  with r a' show ?thesis by blast
qed

theorem side_effect_failures_not_surfaced_witness:
  "assignment_GetByID (demo_env 5)
      (demo_db (demo_assignment ''in_progress'' (demo_booking ''in_progress'' (Some 2) None None))) 1
     = Some (demo_assignment ''in_progress'' (demo_booking ''in_progress'' (Some 2) None None))
   \<and> a_Status (demo_assignment ''in_progress'' (demo_booking ''in_progress'' (Some 2) None None))
       = spec_precondition (Complete [] [] [])
   \<and> (\<exists>db' fx.
         run (Complete [] [] [])
           ((demo_env 5)\<lparr>chat_create_fails := True, worker_get_fails := True,
                          increment_fails := True, chat_close_fails := True,
                          start_tracking_fails := True, stop_tracking_fails := True\<rparr>)
           (demo_db (demo_assignment ''in_progress'' (demo_booking ''in_progress'' (Some 2) None None)))
           1 7
         = (Inr ((demo_assignment ''in_progress'' (demo_booking ''in_progress'' (Some 2) None None))
                  \<lparr>a_Status := ''completed'', a_CompletedAt := Some 5\<rparr>), db', fx)
       \<and> (\<exists>b'. find_row booking_key (bookings db') 10 = Some b' \<and> b_Status b' = ''completed''))"
proof -
  let ?B = "demo_booking ''in_progress'' (Some 2) None None"
  let ?A = "demo_assignment ''in_progress'' ?B"
  have h1: "assignment_GetByID (demo_env 5) (demo_db ?A) 1 = Some ?A" by (rule demo_load)
  have h2: "a_WorkerID ?A = 7" by (simp add: demo_assignment_def)
  have h3: "a_Status ?A = spec_precondition (Complete [] [] [])" by (simp add: demo_assignment_def)
  have h4: "\<not> assignment_update_fails (demo_env 5)" by (simp add: demo_env_def)
  have bid: "a_BookingID ?A = 10" by (simp add: demo_assignment_def)
  have h5: "booking_GetByID (demo_env 5) (demo_db ?A) (a_BookingID ?A) = Some ?B"
    unfolding bid by (rule demo_booking_load)
  have h6: "\<not> booking_update_fails (demo_env 5)" by (simp add: demo_env_def)
  have n: "now (demo_env 5) = 5" by (simp add: demo_env_def)
  from side_effect_failures_not_surfaced [OF h1 h2 h3 h4 h5 h6, of True True True True True True]
    h1 h3 show ?thesis
    unfolding bid n by simp blast
qed

section \<open>The timestamp invariant\<close>

text \<open>
  Claim C8, as stated, fails: an assignment in status assigned that carries a
  rejection time satisfies the timestamp invariant, and Accept gives it an acceptance
  time as well.
\<close>

theorem accept_breaks_timestamp_invariant_counterexample:
  "timestamp_invariant ((demo_assignment ''assigned'' (demo_booking ''pending'' None None None))
                          \<lparr>a_RejectedAt := Some 3\<rparr>)
   \<and> fst (AcceptAssignment (demo_env 5)
          (demo_db ((demo_assignment ''assigned'' (demo_booking ''pending'' None None None))
                      \<lparr>a_RejectedAt := Some 3\<rparr>)) 1 7 ''ok'')
     = Inr ((demo_assignment ''assigned'' (demo_booking ''pending'' None None None))
             \<lparr>a_Status := ''accepted'', a_AcceptedAt := Some 5, a_RejectedAt := Some 3,
               a_AcceptanceNotes := ''ok''\<rparr>)
   \<and> \<not> timestamp_invariant ((demo_assignment ''assigned'' (demo_booking ''pending'' None None None))
             \<lparr>a_Status := ''accepted'', a_AcceptedAt := Some 5, a_RejectedAt := Some 3,
               a_AcceptanceNotes := ''ok''\<rparr>)"
  unfolding demo_accept_rejected_before
  by (simp add: timestamp_invariant_def demo_assignment_def)

text \<open>
  Claim C8, amended. For an assignment whose timestamps agree with its status, every
  operation preserves the timestamp invariant together with that agreement, both in
  the assignment it returns and in the assignment it leaves stored.
\<close>

theorem consistent_timestamps_preserved:
  assumes "assignment_GetByID env db aid = Some a"
    and "timestamp_invariant a" and "status_consistent a"
    and "run op env db aid w = (r, db', fx)"
  shows "(\<forall>a'. r = Inr a' \<longrightarrow> timestamp_invariant a' \<and> status_consistent a')
       \<and> (\<forall>a''. find_row assignment_key (assignments db') aid = Some a'' \<longrightarrow>
              timestamp_invariant a'' \<and> status_consistent a'')"
proof (intro conjI allI impI)
  fix a' assume "r = Inr a'"
  with assms(4) have r: "run op env db aid w = (Inr a', db', fx)" by simp
  have a': "a' = spec_assignment_mutation op (now env) a" by (rule run_returns [OF r assms(1)])
  from run_success [OF r] assms(1) have "a_Status a = spec_precondition op" by auto
  from mutation_preserves [OF assms(2,3) this, of "now env"] a'
  show "timestamp_invariant a'" "status_consistent a'" by simp_all
next
  fix a'' assume s: "find_row assignment_key (assignments db') aid = Some a''"
  from run_stored [OF assms(1,4) s]
  have "timestamp_invariant a'' \<and> status_consistent a''"
  proof
    assume "a'' = a" with assms(2,3) show ?thesis by simp
  next
    assume "a_Status a = spec_precondition op \<and> a'' = spec_assignment_mutation op (now env) a"
    with mutation_preserves [OF assms(2,3), of op "now env"] show ?thesis by simp
  qed
  then show "timestamp_invariant a''" "status_consistent a''" by simp_all
qed

theorem consistent_timestamps_preserved_witness:
  "timestamp_invariant (demo_assignment ''assigned'' (demo_booking ''pending'' None None None))
   \<and> status_consistent (demo_assignment ''assigned'' (demo_booking ''pending'' None None None))
   \<and> timestamp_invariant ((demo_assignment ''assigned'' (demo_booking ''pending'' None None None))
             \<lparr>a_Status := ''accepted'', a_AcceptedAt := Some 5, a_AcceptanceNotes := ''ok''\<rparr>)
   \<and> status_consistent ((demo_assignment ''assigned'' (demo_booking ''pending'' None None None))
             \<lparr>a_Status := ''accepted'', a_AcceptedAt := Some 5, a_AcceptanceNotes := ''ok''\<rparr>)"
proof -
  let ?A = "demo_assignment ''assigned'' (demo_booking ''pending'' None None None)"
  have h1: "assignment_GetByID (demo_env 5) (demo_db ?A) 1 = Some ?A" by (rule demo_load)
  have h2: "timestamp_invariant ?A" by (simp add: timestamp_invariant_def demo_assignment_def)
  have h3: "status_consistent ?A" by (simp add: status_consistent_def demo_assignment_def status_defs)
  have r: "run (Accept ''ok'') (demo_env 5) (demo_db ?A) 1 7 =
     (Inr (?A\<lparr>a_Status := ''accepted'', a_AcceptedAt := Some 5, a_AcceptanceNotes := ''ok''\<rparr>),
      \<lparr>assignments = [?A\<lparr>a_Status := ''accepted'', a_AcceptedAt := Some 5, a_AcceptanceNotes := ''ok''\<rparr>],
       bookings = [(demo_booking ''pending'' None None None)\<lparr>b_Status := ''confirmed''\<rparr>],
       workers = [demo_worker]\<rparr>,
      [CreateBookingChatRoomWhenWorkerAccepts 10, EnableCallMasking 10,
       SendWorkerAssignmentNotification 1 ''accepted'', NotifyAssignmentAccepted 1 10])"
    using demo_accept by simp
  from consistent_timestamps_preserved [OF h1 h2 h3 r] h2 h3 show ?thesis by blast
qed

section \<open>What Complete writes\<close>

lemma stat_increments_simps [simp]:
  "stat_increments [] = []"
  "stat_increments (xs @ ys) = stat_increments xs @ stat_increments ys"
  "stat_increments (IncrementCompletedJob wid e # xs) = (wid, e) # stat_increments xs"
  "stat_increments (LogError msg # xs) = stat_increments xs"
  "stat_increments (DisableCallMasking i # xs) = stat_increments xs"
  "stat_increments (CloseBookingChatRoom i rs # xs) = stat_increments xs"
  "stat_increments (StopTracking i j # xs) = stat_increments xs"
  "stat_increments (NotifyWorkerCompleted i # xs) = stat_increments xs"
  by (simp_all add: stat_increments_def map_filter_def)

lemma stats_calls:
  "stat_increments (snd (update_worker_statistics env db a b)) =
     (case worker_GetByUserID env db (a_WorkerID a) of
        None \<Rightarrow> []
      | Some wk \<Rightarrow> [(worker_key wk, earnings b)])"
  by (simp add: update_worker_statistics_def split: option.splits)

lemma stats_db:
  assumes "worker_GetByUserID env db (a_WorkerID a) = Some wk" and "\<not> increment_fails env"
  shows "find_row w_UserID (workers (fst (update_worker_statistics env db a b))) (a_WorkerID a)
         = Some (bump_stats (earnings b) wk)"
proof -
  obtain db' where i: "worker_IncrementCompletedJob env db (worker_key wk) (earnings b) = Some db'"
    using assms(2) by (simp add: worker_IncrementCompletedJob_def)
  from stats_workers [OF assms i] assms(1) i show ?thesis
    by (simp add: update_worker_statistics_def)
qed

lemma complete_explicit:
  assumes "CompleteAssignment env db aid w n m p = (Inr a', db', fx)"
  shows "\<exists>a b. assignment_GetByID env db aid = Some a
      \<and> booking_GetByID env db (a_BookingID a) = Some b
      \<and> a' = a\<lparr>a_Status := AssignmentStatusCompleted, a_CompletedAt := Some (now env)\<rparr>
      \<and> db' = fst (update_worker_statistics env
                 (db\<lparr>assignments := save_row assignment_key a' (assignments db),
                     bookings := save_row booking_key
                       (case b_ActualStartTime b of
                          None \<Rightarrow> b\<lparr>b_Status := BookingStatusCompleted,
                                    b_ActualEndTime := Some (now env)\<rparr>
                        | Some s \<Rightarrow> b\<lparr>b_Status := BookingStatusCompleted,
                                      b_ActualEndTime := Some (now env),
                                      b_ActualDurationMinutes := Some (duration (now env) s)\<rparr>)
                       (bookings db)\<rparr>)
                 a'
                 (case b_ActualStartTime b of
                          None \<Rightarrow> b\<lparr>b_Status := BookingStatusCompleted,
                                    b_ActualEndTime := Some (now env)\<rparr>
                        | Some s \<Rightarrow> b\<lparr>b_Status := BookingStatusCompleted,
                                      b_ActualEndTime := Some (now env),
                                      b_ActualDurationMinutes := Some (duration (now env) s)\<rparr>))
      \<and> stat_increments fx = stat_increments (snd (update_worker_statistics env
                 (db\<lparr>assignments := save_row assignment_key a' (assignments db),
                     bookings := save_row booking_key
                       (case b_ActualStartTime b of
                          None \<Rightarrow> b\<lparr>b_Status := BookingStatusCompleted,
                                    b_ActualEndTime := Some (now env)\<rparr>
                        | Some s \<Rightarrow> b\<lparr>b_Status := BookingStatusCompleted,
                                      b_ActualEndTime := Some (now env),
                                      b_ActualDurationMinutes := Some (duration (now env) s)\<rparr>)
                       (bookings db)\<rparr>)
                 a'
                 (case b_ActualStartTime b of
                          None \<Rightarrow> b\<lparr>b_Status := BookingStatusCompleted,
                                    b_ActualEndTime := Some (now env)\<rparr>
                        | Some s \<Rightarrow> b\<lparr>b_Status := BookingStatusCompleted,
                                      b_ActualEndTime := Some (now env),
                                      b_ActualDurationMinutes := Some (duration (now env) s)\<rparr>)))"
  using assms
  by (auto simp: CompleteAssignment_def repo_defs Let_def split: option.splits if_splits)




lemma completed_booking_fields:
  "booking_key (completed_booking t b) = booking_key b"
  "earnings (completed_booking t b) = earnings b"
  "b_ActualEndTime (completed_booking t b) = Some t"
  "b_ActualDurationMinutes (completed_booking t b) =
     (case b_ActualStartTime b of None \<Rightarrow> b_ActualDurationMinutes b
      | Some s \<Rightarrow> Some (duration t s))"
  by (simp_all add: completed_booking_def split: option.splits)

lemma complete_result:
  assumes "CompleteAssignment env db aid w n m p = (Inr a', db', fx)"
  shows "\<exists>a b. assignment_GetByID env db aid = Some a
      \<and> booking_GetByID env db (a_BookingID a) = Some b
      \<and> a_WorkerID a' = a_WorkerID a
      \<and> db' = fst (update_worker_statistics env
                 (db\<lparr>assignments := save_row assignment_key a' (assignments db),
                     bookings := save_row booking_key (completed_booking (now env) b) (bookings db)\<rparr>)
                 a' (completed_booking (now env) b))
      \<and> stat_increments fx = stat_increments (snd (update_worker_statistics env
                 (db\<lparr>assignments := save_row assignment_key a' (assignments db),
                     bookings := save_row booking_key (completed_booking (now env) b) (bookings db)\<rparr>)
                 a' (completed_booking (now env) b)))"
proof -
  from complete_explicit [OF assms] obtain a b where
    g: "assignment_GetByID env db aid = Some a"
    and bg: "booking_GetByID env db (a_BookingID a) = Some b"
    and a': "a' = a\<lparr>a_Status := AssignmentStatusCompleted, a_CompletedAt := Some (now env)\<rparr>"
    and rest: "db' = fst (update_worker_statistics env
                 (db\<lparr>assignments := save_row assignment_key a' (assignments db),
                     bookings := save_row booking_key (completed_booking (now env) b) (bookings db)\<rparr>)
                 a' (completed_booking (now env) b))"
      "stat_increments fx = stat_increments (snd (update_worker_statistics env
                 (db\<lparr>assignments := save_row assignment_key a' (assignments db),
                     bookings := save_row booking_key (completed_booking (now env) b) (bookings db)\<rparr>)
                 a' (completed_booking (now env) b)))"
    unfolding completed_booking_def by blast
  have "a_WorkerID a' = a_WorkerID a" using a' by simp
  with g bg rest show ?thesis by blast
qed

lemma demo_worker_load:
  "worker_GetByUserID (demo_env t) (demo_db a) 7 = Some demo_worker"
  by (simp add: worker_GetByUserID_def find_row_def demo_db_def demo_env_def demo_worker_def)

lemma earnings_examples:
  "earnings (demo_booking bs started (Some 120) (Some 80)) = 120"
  "earnings (demo_booking bs started None (Some 80)) = 80"
  "earnings (demo_booking bs started None None) = 0"
  by (simp_all add: earnings_def demo_booking_def demo_service_def)

lemma demo_complete_commits:
  "\<exists>a' db' fx. CompleteAssignment (demo_env t)
      (demo_db (demo_assignment ''in_progress'' (demo_booking bs started q pr))) 1 7 [] [] []
     = (Inr a', db', fx)"
proof -
  let ?B = "demo_booking bs started q pr"
  let ?A = "demo_assignment ''in_progress'' ?B"
  have h1: "assignment_GetByID (demo_env t) (demo_db ?A) 1 = Some ?A" by (rule demo_load)
  have h2: "a_WorkerID ?A = 7" by (simp add: demo_assignment_def)
  have h3: "a_Status ?A = spec_precondition (Complete [] [] [])" by (simp add: demo_assignment_def)
  have h4: "\<not> assignment_update_fails (demo_env t)" by (simp add: demo_env_def)
  have bid: "a_BookingID ?A = 10" by (simp add: demo_assignment_def)
  have h5: "booking_GetByID (demo_env t) (demo_db ?A) (a_BookingID ?A) = Some ?B"
    unfolding bid by (rule demo_booking_load)
  have h6: "\<not> booking_update_fails (demo_env t)" by (simp add: demo_env_def)
  from run_commits [OF h1 h2 h3 h4 h5 h6] show ?thesis by simp
qed

lemma demo_complete_never_started:
  "CompleteAssignment ((demo_env 9)\<lparr>worker_get_fails := True\<rparr>)
      (demo_db (demo_assignment ''in_progress'' (demo_booking ''confirmed'' None None None)))
      1 7 [] [] []
   = (Inr ((demo_assignment ''in_progress'' (demo_booking ''confirmed'' None None None))
             \<lparr>a_Status := ''completed'', a_CompletedAt := Some 9\<rparr>),
      \<lparr>assignments = [(demo_assignment ''in_progress'' (demo_booking ''confirmed'' None None None))
             \<lparr>a_Status := ''completed'', a_CompletedAt := Some 9\<rparr>],
       bookings = [(demo_booking ''confirmed'' None None None)
             \<lparr>b_Status := ''completed'', b_ActualEndTime := Some 9\<rparr>],
       workers = [demo_worker]\<rparr>,
      [DisableCallMasking 10, LogError ''Failed to get worker for assignment %d: %v'',
       CloseBookingChatRoom 10 ''Service completed'', StopTracking 7 1,
       NotifyWorkerCompleted 10])"
  by (simp add: CompleteAssignment_def Let_def repo_defs find_row_def save_row_def key_defs
      status_defs update_worker_statistics_def worker_GetByUserID_def
      demo_db_def demo_env_def demo_assignment_def demo_booking_def demo_model_def)

text \<open>
  A booking without a start time under an assignment in progress is a state the service
  itself produces: Start writes the assignment, and when its booking write then fails
  the booking keeps no start time. Complete on that state succeeds and leaves the
  duration unset.
\<close>

lemma demo_start_booking_write_fails:
  "StartAssignment ((demo_env 4)\<lparr>booking_update_fails := True\<rparr>)
      (demo_db (demo_assignment ''accepted'' (demo_booking ''confirmed'' None None None)))
      1 7 []
   = (Inl ''failed to update booking status'',
      demo_db (demo_assignment ''accepted'' (demo_booking ''confirmed'' None None None))
        \<lparr>assignments := [(demo_assignment ''accepted'' (demo_booking ''confirmed'' None None None))
             \<lparr>a_Status := ''in_progress'', a_StartedAt := Some 4\<rparr>]\<rparr>,
      [LogError ''Failed to update booking status: %v''])"
  by (simp add: StartAssignment_def Let_def repo_defs find_row_def save_row_def key_defs
      status_defs demo_db_def demo_env_def demo_assignment_def demo_booking_def demo_model_def)

lemma demo_complete_after_failed_start:
  "fst (CompleteAssignment ((demo_env 9)\<lparr>worker_get_fails := True\<rparr>)
      (demo_db (demo_assignment ''accepted'' (demo_booking ''confirmed'' None None None))
        \<lparr>assignments := [(demo_assignment ''accepted'' (demo_booking ''confirmed'' None None None))
             \<lparr>a_Status := ''in_progress'', a_StartedAt := Some 4\<rparr>]\<rparr>)
      1 7 [] [] [])
   = Inr ((demo_assignment ''accepted'' (demo_booking ''confirmed'' None None None))
             \<lparr>a_Status := ''completed'', a_StartedAt := Some 4, a_CompletedAt := Some 9\<rparr>)
   \<and> map b_ActualDurationMinutes (bookings (fst (snd
        (CompleteAssignment ((demo_env 9)\<lparr>worker_get_fails := True\<rparr>)
      (demo_db (demo_assignment ''accepted'' (demo_booking ''confirmed'' None None None))
        \<lparr>assignments := [(demo_assignment ''accepted'' (demo_booking ''confirmed'' None None None))
             \<lparr>a_Status := ''in_progress'', a_StartedAt := Some 4\<rparr>]\<rparr>)
      1 7 [] [] [])))) = [None]"
  by (simp add: CompleteAssignment_def Let_def repo_defs find_row_def save_row_def key_defs
      status_defs update_worker_statistics_def worker_GetByUserID_def
      demo_db_def demo_env_def demo_assignment_def demo_booking_def demo_model_def)

section \<open>Earnings\<close>

text \<open>
  Claim C4. After a successful Complete, with \<open>b\<close> the booking as loaded: the
  earnings are the quote amount when present, else the price of the service when
  present, else zero; the statistics increment is called exactly once, with these
  earnings, when the worker is found (and not at all otherwise); and when the increment
  itself does not fail, the worker's cumulative earnings have grown by exactly that
  amount and the completed-job counter by one.
\<close>

theorem complete_earnings:
  assumes "CompleteAssignment env db aid w n m p = (Inr a', db', fx)"
  shows "\<exists>a b. assignment_GetByID env db aid = Some a
     \<and> booking_GetByID env db (a_BookingID a) = Some b
     \<and> earnings b = (case b_QuoteAmount b of
                       Some q \<Rightarrow> q
                     | None \<Rightarrow> (case s_Price (b_Service b) of Some pr \<Rightarrow> pr | None \<Rightarrow> 0))
     \<and> stat_increments fx =
         (case worker_GetByUserID env db (a_WorkerID a) of
            None \<Rightarrow> []
          | Some wk \<Rightarrow> [(worker_key wk, earnings b)])
     \<and> (\<forall>wk. worker_GetByUserID env db (a_WorkerID a) = Some wk \<and> \<not> increment_fails env \<longrightarrow>
           find_row w_UserID (workers db') (a_WorkerID a)
             = Some (wk\<lparr>completedJobCount := completedJobCount wk + 1,
                        cumulativeEarnings := cumulativeEarnings wk + earnings b\<rparr>))"
proof -
  from complete_result [OF assms] obtain a b where
    g: "assignment_GetByID env db aid = Some a"
    and bg: "booking_GetByID env db (a_BookingID a) = Some b"
    and wa: "a_WorkerID a' = a_WorkerID a"
    and db': "db' = fst (update_worker_statistics env
                 (db\<lparr>assignments := save_row assignment_key a' (assignments db),
                     bookings := save_row booking_key (completed_booking (now env) b) (bookings db)\<rparr>)
                 a' (completed_booking (now env) b))"
    and fx: "stat_increments fx = stat_increments (snd (update_worker_statistics env
                 (db\<lparr>assignments := save_row assignment_key a' (assignments db),
                     bookings := save_row booking_key (completed_booking (now env) b) (bookings db)\<rparr>)
                 a' (completed_booking (now env) b)))"
    by blast
  let ?db2 = "db\<lparr>assignments := save_row assignment_key a' (assignments db),
                 bookings := save_row booking_key (completed_booking (now env) b) (bookings db)\<rparr>"
  have wg: "worker_GetByUserID env ?db2 (a_WorkerID a') = worker_GetByUserID env db (a_WorkerID a)"
    by (simp add: worker_GetByUserID_def wa)
  have e: "earnings b = (case b_QuoteAmount b of
                       Some q \<Rightarrow> q
                     | None \<Rightarrow> (case s_Price (b_Service b) of Some pr \<Rightarrow> pr | None \<Rightarrow> 0))"
    by (simp add: earnings_def)
  have calls: "stat_increments fx =
         (case worker_GetByUserID env db (a_WorkerID a) of
            None \<Rightarrow> []
          | Some wk \<Rightarrow> [(worker_key wk, earnings b)])"
    unfolding fx stats_calls wg completed_booking_fields ..
  have stored: "find_row w_UserID (workers db') (a_WorkerID a)
             = Some (wk\<lparr>completedJobCount := completedJobCount wk + 1,
                        cumulativeEarnings := cumulativeEarnings wk + earnings b\<rparr>)"
    if "worker_GetByUserID env db (a_WorkerID a) = Some wk" and nf: "\<not> increment_fails env" for wk
  proof -
    have "worker_GetByUserID env ?db2 (a_WorkerID a') = Some wk" using that(1) wg by simp
    from stats_db [OF this nf, of "completed_booking (now env) b"]
    show ?thesis unfolding db' wa completed_booking_fields by (simp add: bump_stats_def)
  qed
  from g bg e calls stored show ?thesis by blast
qed

theorem complete_earnings_witness:
  "\<exists>a' db' fx. CompleteAssignment (demo_env 9)
      (demo_db (demo_assignment ''in_progress''
                 (demo_booking ''in_progress'' (Some 2) (Some 120) (Some 80)))) 1 7 [] [] []
     = (Inr a', db', fx)
   \<and> stat_increments fx = [(40, 120)]
   \<and> find_row w_UserID (workers db') 7
       = Some (demo_worker\<lparr>completedJobCount := 3, cumulativeEarnings := 420\<rparr>)"
proof -
  let ?B = "demo_booking ''in_progress'' (Some 2) (Some 120) (Some 80)"
  let ?A = "demo_assignment ''in_progress'' ?B"
  obtain a' db' fx where
    r: "CompleteAssignment (demo_env 9) (demo_db ?A) 1 7 [] [] [] = (Inr a', db', fx)"
    using demo_complete_commits by blast
  from complete_earnings [OF r] obtain a b where
    g: "assignment_GetByID (demo_env 9) (demo_db ?A) 1 = Some a"
    and bg: "booking_GetByID (demo_env 9) (demo_db ?A) (a_BookingID a) = Some b"
    and calls: "stat_increments fx =
         (case worker_GetByUserID (demo_env 9) (demo_db ?A) (a_WorkerID a) of
            None \<Rightarrow> []
          | Some wk \<Rightarrow> [(worker_key wk, earnings b)])"
    and stored: "\<forall>wk. worker_GetByUserID (demo_env 9) (demo_db ?A) (a_WorkerID a) = Some wk
           \<and> \<not> increment_fails (demo_env 9) \<longrightarrow>
           find_row w_UserID (workers db') (a_WorkerID a)
             = Some (wk\<lparr>completedJobCount := completedJobCount wk + 1,
                        cumulativeEarnings := cumulativeEarnings wk + earnings b\<rparr>)"
    by blast
  have a: "a = ?A" using g demo_load [of 9 "''in_progress''" ?B] by simp
  have wid: "a_WorkerID a = 7" and bid: "a_BookingID a = 10"
    unfolding a by (simp_all add: demo_assignment_def)
  have bidA: "a_BookingID ?A = 10" by (simp add: demo_assignment_def)
  have b: "b = ?B" using bg demo_booking_load [of 9 "''in_progress''"] unfolding a bidA by simp
  have e: "earnings b = 120" unfolding b by (rule earnings_examples)
  have wl: "worker_GetByUserID (demo_env 9) (demo_db ?A) (a_WorkerID a) = Some demo_worker"
    unfolding wid by (rule demo_worker_load)
  have nf: "\<not> increment_fails (demo_env 9)" by (simp add: demo_env_def)
  have c: "stat_increments fx = [(40, 120)]"
    using calls unfolding wl e by (simp add: worker_key_def demo_worker_def demo_model_def)
  from stored wl nf have "find_row w_UserID (workers db') (a_WorkerID a)
             = Some (demo_worker\<lparr>completedJobCount := completedJobCount demo_worker + 1,
                        cumulativeEarnings := cumulativeEarnings demo_worker + earnings b\<rparr>)"
    by blast
  then have s: "find_row w_UserID (workers db') 7
       = Some (demo_worker\<lparr>completedJobCount := 3, cumulativeEarnings := 420\<rparr>)"
    unfolding wid e by (simp add: demo_worker_def)
  from r c s show ?thesis by blast
qed

section \<open>Duration\<close>

text \<open>
  Claim C5, as stated, fails: Complete succeeds on a booking that has no actual start
  time, and then sets the end time but leaves the duration unset.
\<close>

theorem complete_without_start_time_counterexample:
  "fst (CompleteAssignment ((demo_env 9)\<lparr>worker_get_fails := True\<rparr>)
      (demo_db (demo_assignment ''in_progress'' (demo_booking ''confirmed'' None None None)))
      1 7 [] [] [])
   = Inr ((demo_assignment ''in_progress'' (demo_booking ''confirmed'' None None None))
             \<lparr>a_Status := ''completed'', a_CompletedAt := Some 9\<rparr>)
   \<and> map b_ActualEndTime (bookings (fst (snd
        (CompleteAssignment ((demo_env 9)\<lparr>worker_get_fails := True\<rparr>)
          (demo_db (demo_assignment ''in_progress'' (demo_booking ''confirmed'' None None None)))
          1 7 [] [] [])))) = [Some 9]
   \<and> map b_ActualDurationMinutes (bookings (fst (snd
        (CompleteAssignment ((demo_env 9)\<lparr>worker_get_fails := True\<rparr>)
          (demo_db (demo_assignment ''in_progress'' (demo_booking ''confirmed'' None None None)))
          1 7 [] [] [])))) = [None]"
  unfolding demo_complete_never_started
  by (simp add: demo_booking_def)

text \<open>
  Claim C5, amended. After a successful Complete the stored booking has the completion
  instant as its end time. When the booking loaded has an actual start time, the
  duration stored is \<^verbatim>\<open>int(now.Sub(start).Minutes())\<close>; when start and completion
  are less than \<open>2 ^ 18\<close> minutes apart, this is the whole number of minutes between
  them, fractions dropped towards zero, and so the floor of the number of minutes when
  the start is not later than the completion. When the booking has no actual start
  time, the duration is left as it was.
\<close>

theorem complete_duration:
  assumes "CompleteAssignment env db aid w n m p = (Inr a', db', fx)"
  shows "\<exists>a b b'. assignment_GetByID env db aid = Some a
     \<and> booking_GetByID env db (a_BookingID a) = Some b
     \<and> find_row booking_key (bookings db') (a_BookingID a) = Some b'
     \<and> b_ActualEndTime b' = Some (now env)
     \<and> (case b_ActualStartTime b of
          None \<Rightarrow> b_ActualDurationMinutes b' = b_ActualDurationMinutes b
        | Some s \<Rightarrow>
            b_ActualDurationMinutes b' = Some (duration (now env) s)
          \<and> (\<bar>Sub (now env) s\<bar> < 2 ^ 18 * Minute \<longrightarrow>
               b_ActualDurationMinutes b' = Some (Sub (now env) s sdiv Minute))
          \<and> (s \<le> now env \<and> now env - s < 2 ^ 18 * Minute \<longrightarrow>
               b_ActualDurationMinutes b'
                 = Some \<lfloor>real_of_int (now env - s) / real_of_int Minute\<rfloor>))"
proof -
  from complete_result [OF assms] obtain a b where
    g: "assignment_GetByID env db aid = Some a"
    and bg: "booking_GetByID env db (a_BookingID a) = Some b"
    and db': "db' = fst (update_worker_statistics env
                 (db\<lparr>assignments := save_row assignment_key a' (assignments db),
                     bookings := save_row booking_key (completed_booking (now env) b) (bookings db)\<rparr>)
                 a' (completed_booking (now env) b))"
    by blast
  let ?b' = "completed_booking (now env) b"
  have f: "find_row booking_key (bookings db) (a_BookingID a) = Some b"
    using bg by (simp add: booking_GetByID_def split: if_splits)
  have k: "booking_key ?b' = a_BookingID a"
    using find_row_key [OF f] by (simp add: completed_booking_fields)
  have st: "find_row booking_key (bookings db') (a_BookingID a) = Some ?b'"
    unfolding db' stats_frame using find_row_save_same [OF f k] by simp
  have d: "(case b_ActualStartTime b of
          None \<Rightarrow> b_ActualDurationMinutes ?b' = b_ActualDurationMinutes b
        | Some s \<Rightarrow>
            b_ActualDurationMinutes ?b' = Some (duration (now env) s)
          \<and> (\<bar>Sub (now env) s\<bar> < 2 ^ 18 * Minute \<longrightarrow>
               b_ActualDurationMinutes ?b' = Some (Sub (now env) s sdiv Minute))
          \<and> (s \<le> now env \<and> now env - s < 2 ^ 18 * Minute \<longrightarrow>
               b_ActualDurationMinutes ?b'
                 = Some \<lfloor>real_of_int (now env - s) / real_of_int Minute\<rfloor>))"
  proof (cases "b_ActualStartTime b")
    case None
    then show ?thesis by (simp add: completed_booking_fields)
  next
    case (Some s)
    have 1: "duration (now env) s = Sub (now env) s sdiv Minute"
      if "\<bar>Sub (now env) s\<bar> < 2 ^ 18 * Minute"
      using duration_truncated [OF that] .
    have 2: "duration (now env) s = \<lfloor>real_of_int (now env - s) / real_of_int Minute\<rfloor>"
      if "s \<le> now env" "now env - s < 2 ^ 18 * Minute"
      using duration_floor [OF that] .
    from Some 1 2 show ?thesis by (simp add: completed_booking_fields)
  qed
  have "b_ActualEndTime ?b' = Some (now env)" by (simp add: completed_booking_fields)
  with g bg st d show ?thesis by blast
qed

theorem complete_duration_witness:
  "\<exists>a' db' fx b'. CompleteAssignment (demo_env (38820 * 1000000000))
      (demo_db (demo_assignment ''in_progress''
                 (demo_booking ''in_progress'' (Some (36000 * 1000000000)) None None)))
      1 7 [] [] []
     = (Inr a', db', fx)
   \<and> find_row booking_key (bookings db') 10 = Some b'
   \<and> b_ActualDurationMinutes b' = Some 47"
proof -
  let ?B = "demo_booking ''in_progress'' (Some (36000 * 1000000000)) None None"
  let ?A = "demo_assignment ''in_progress'' ?B"
  let ?E = "demo_env (38820 * 1000000000)"
  obtain a' db' fx where
    r: "CompleteAssignment ?E (demo_db ?A) 1 7 [] [] [] = (Inr a', db', fx)"
    using demo_complete_commits by blast
  from complete_duration [OF r] obtain a b b' where
    g: "assignment_GetByID ?E (demo_db ?A) 1 = Some a"
    and bg: "booking_GetByID ?E (demo_db ?A) (a_BookingID a) = Some b"
    and st: "find_row booking_key (bookings db') (a_BookingID a) = Some b'"
    and d: "(case b_ActualStartTime b of
          None \<Rightarrow> b_ActualDurationMinutes b' = b_ActualDurationMinutes b
        | Some s \<Rightarrow>
            b_ActualDurationMinutes b' = Some (duration (now ?E) s)
          \<and> (\<bar>Sub (now ?E) s\<bar> < 2 ^ 18 * Minute \<longrightarrow>
               b_ActualDurationMinutes b' = Some (Sub (now ?E) s sdiv Minute))
          \<and> (s \<le> now ?E \<and> now ?E - s < 2 ^ 18 * Minute \<longrightarrow>
               b_ActualDurationMinutes b'
                 = Some \<lfloor>real_of_int (now ?E - s) / real_of_int Minute\<rfloor>))"
    by blast
  have a: "a = ?A" using g demo_load [of "38820 * 1000000000" "''in_progress''" ?B] by simp
  have bid: "a_BookingID a = 10" unfolding a by (simp add: demo_assignment_def)
  have bidA: "a_BookingID ?A = 10" by (simp add: demo_assignment_def)
  have b: "b = ?B"
    using bg demo_booking_load [of "38820 * 1000000000" "''in_progress''"] unfolding a bidA by simp
  have s: "b_ActualStartTime b = Some (36000 * 1000000000)" unfolding b by (simp add: demo_booking_def)
  have n: "now ?E = 38820 * 1000000000" by (simp add: demo_env_def)
  have rng: "(36000 * 1000000000 :: int) \<le> 38820 * 1000000000
      \<and> (38820 * 1000000000 :: int) - 36000 * 1000000000 < 2 ^ 18 * Minute"
    by (simp add: Minute_def)
  have v: "\<lfloor>2820000000000 / real_of_int Minute\<rfloor> = 47" by (simp add: Minute_def)
  from d s n rng v have "b_ActualDurationMinutes b' = Some 47" by auto
  with r st bid show ?thesis by auto
qed

section \<open>The transition table\<close>

lemma mutation_status:
  "a_Status (spec_assignment_mutation op t a) = spec_assignment_status op"
  by (cases op) simp_all

text \<open>
  Claim C2, as stated, fails: the table pairs each assignment transition with a booking
  transition, but Start on an accepted assignment whose booking write fails stores the
  assignment as in progress while the booking stays confirmed, which is no row of the
  table.
\<close>

theorem start_moves_assignment_alone_counterexample:
  "fst (StartAssignment ((demo_env 4)\<lparr>booking_update_fails := True\<rparr>)
      (demo_db (demo_assignment ''accepted'' (demo_booking ''confirmed'' None None None)))
      1 7 [])
     = Inl ''failed to update booking status''
   \<and> map a_Status (assignments
        (demo_db (demo_assignment ''accepted'' (demo_booking ''confirmed'' None None None))))
     = [''accepted'']
   \<and> map a_Status (assignments (fst (snd (StartAssignment ((demo_env 4)\<lparr>booking_update_fails := True\<rparr>)
      (demo_db (demo_assignment ''accepted'' (demo_booking ''confirmed'' None None None)))
      1 7 []))))
     = [''in_progress'']
   \<and> map b_Status (bookings (fst (snd (StartAssignment ((demo_env 4)\<lparr>booking_update_fails := True\<rparr>)
      (demo_db (demo_assignment ''accepted'' (demo_booking ''confirmed'' None None None)))
      1 7 []))))
     = [''confirmed'']"
  unfolding demo_start_booking_write_fails
  by (simp add: demo_db_def demo_assignment_def demo_booking_def)

text \<open>
  Claim C2, amended. For an assignment that is found and owned by the caller, and for
  every operation: invoked in a status other than the one the table requires, the
  operation returns an error of kind InvalidStateTransition, with the database
  unchanged and no port called; invoked in the required status, when the assignment
  write, the booking load and the booking write succeed, it returns the assignment and
  leaves assignment and booking stored in the statuses of its row of the table; every
  operation that succeeds started from the required status and has stored its row; an
  operation that returns an error leaves the bookings unchanged, and the database
  unchanged unless the error is ``failed to update booking status'', in which case the
  stored assignment has moved along its row while the booking has not; and whatever the
  outcome, the stored assignment is either the one loaded or has moved along the row of
  the operation invoked.
\<close>

theorem transitions_follow_table:
  assumes "assignment_GetByID env db aid = Some a" and "a_WorkerID a = w"
  shows "(a_Status a \<noteq> spec_precondition op \<longrightarrow>
            (\<exists>msg. run op env db aid w = (Inl msg, db, [])
                 \<and> kind_of msg = Some InvalidStateTransition))
       \<and> (a_Status a = spec_precondition op \<and> \<not> assignment_update_fails env
            \<and> booking_GetByID env db (a_BookingID a) = Some b
            \<and> \<not> booking_update_fails env \<longrightarrow>
            (\<exists>a' db' fx b'. run op env db aid w = (Inr a', db', fx)
                 \<and> a_Status a' = spec_assignment_status op
                 \<and> find_row assignment_key (assignments db') aid = Some a'
                 \<and> find_row booking_key (bookings db') (a_BookingID a) = Some b'
                 \<and> b_Status b' = spec_booking_status op))
       \<and> (\<forall>a' db' fx. run op env db aid w = (Inr a', db', fx) \<longrightarrow>
              a_Status a = spec_precondition op
            \<and> a_Status a' = spec_assignment_status op
            \<and> find_row assignment_key (assignments db') aid = Some a'
            \<and> (\<exists>b'. find_row booking_key (bookings db') (a_BookingID a) = Some b'
                   \<and> b_Status b' = spec_booking_status op))
       \<and> (\<forall>msg db' fx. run op env db aid w = (Inl msg, db', fx) \<longrightarrow>
              bookings db' = bookings db
            \<and> (db' = db
                \<or> (msg = ''failed to update booking status''
                    \<and> a_Status a = spec_precondition op
                    \<and> (\<exists>a''. find_row assignment_key (assignments db') aid = Some a''
                           \<and> a_Status a'' = spec_assignment_status op))))
       \<and> (\<forall>r db' fx a''. run op env db aid w = (r, db', fx)
              \<and> find_row assignment_key (assignments db') aid = Some a'' \<longrightarrow>
              a'' = a \<or> (a_Status a = spec_precondition op
                         \<and> a_Status a'' = spec_assignment_status op))"
proof -
  have wrong: "\<exists>msg. run op env db aid w = (Inl msg, db, [])
                 \<and> kind_of msg = Some InvalidStateTransition"
    if "a_Status a \<noteq> spec_precondition op"
    using assms that by (rule wrong_status)
  have progress: "\<exists>a' db' fx b'. run op env db aid w = (Inr a', db', fx)
                 \<and> a_Status a' = spec_assignment_status op
                 \<and> find_row assignment_key (assignments db') aid = Some a'
                 \<and> find_row booking_key (bookings db') (a_BookingID a) = Some b'
                 \<and> b_Status b' = spec_booking_status op"
    if c: "a_Status a = spec_precondition op \<and> \<not> assignment_update_fails env
            \<and> booking_GetByID env db (a_BookingID a) = Some b
            \<and> \<not> booking_update_fails env"
  proof -
    from c have c1: "a_Status a = spec_precondition op" and c2: "\<not> assignment_update_fails env"
      and c3: "booking_GetByID env db (a_BookingID a) = Some b"
      and c4: "\<not> booking_update_fails env" by simp_all
    from run_commits [OF assms c1 c2 c3 c4] obtain a' db' fx where
      r: "run op env db aid w = (Inr a', db', fx)" by blast
    from run_success [OF r] assms(1) r show ?thesis by auto
  qed
  have success: "a_Status a = spec_precondition op
            \<and> a_Status a' = spec_assignment_status op
            \<and> find_row assignment_key (assignments db') aid = Some a'
            \<and> (\<exists>b'. find_row booking_key (bookings db') (a_BookingID a) = Some b'
                   \<and> b_Status b' = spec_booking_status op)"
    if r: "run op env db aid w = (Inr a', db', fx)" for a' db' fx
    using run_success [OF r] assms(1) by auto
  have failure: "bookings db' = bookings db
            \<and> (db' = db
                \<or> (msg = ''failed to update booking status''
                    \<and> a_Status a = spec_precondition op
                    \<and> (\<exists>a''. find_row assignment_key (assignments db') aid = Some a''
                           \<and> a_Status a'' = spec_assignment_status op)))"
    if r: "run op env db aid w = (Inl msg, db', fx)" for msg db' fx
    using run_failure [OF r] assms(1) by (auto split: if_splits)
  have stored: "a'' = a \<or> (a_Status a = spec_precondition op
                         \<and> a_Status a'' = spec_assignment_status op)"
    if h: "run op env db aid w = (r, db', fx)
              \<and> find_row assignment_key (assignments db') aid = Some a''" for r db' fx a''
  proof -
    from h have r: "run op env db aid w = (r, db', fx)"
      and s: "find_row assignment_key (assignments db') aid = Some a''" by simp_all
    from run_stored [OF assms(1) r s] show ?thesis by (auto simp: mutation_status)
  qed
  from wrong progress success failure stored show ?thesis by blast
qed

theorem transitions_follow_table_witness:
  "assignment_GetByID (demo_env 5)
      (demo_db (demo_assignment ''assigned'' (demo_booking ''pending'' None None None))) 1
     = Some (demo_assignment ''assigned'' (demo_booking ''pending'' None None None))
   \<and> a_WorkerID (demo_assignment ''assigned'' (demo_booking ''pending'' None None None)) = 7
   \<and> a_Status (demo_assignment ''assigned'' (demo_booking ''pending'' None None None))
        \<noteq> spec_precondition (Start [])
   \<and> (\<exists>msg. run (Start []) (demo_env 5)
          (demo_db (demo_assignment ''assigned'' (demo_booking ''pending'' None None None))) 1 7
        = (Inl msg, demo_db (demo_assignment ''assigned'' (demo_booking ''pending'' None None None)), [])
        \<and> kind_of msg = Some InvalidStateTransition)
   \<and> a_Status (demo_assignment ''assigned'' (demo_booking ''pending'' None None None))
        = spec_precondition (Accept ''ok'')
   \<and> (\<exists>a' db' fx b'. run (Accept ''ok'') (demo_env 5)
          (demo_db (demo_assignment ''assigned'' (demo_booking ''pending'' None None None))) 1 7
        = (Inr a', db', fx)
        \<and> a_Status a' = ''accepted''
        \<and> find_row assignment_key (assignments db') 1 = Some a'
        \<and> find_row booking_key (bookings db') 10 = Some b' \<and> b_Status b' = ''confirmed'')
   \<and> (\<exists>a''. run (Accept ''ok'') ((demo_env 5)\<lparr>booking_update_fails := True\<rparr>)
          (demo_db (demo_assignment ''assigned'' (demo_booking ''pending'' None None None))) 1 7
        = (Inl ''failed to update booking status'',
           \<lparr>assignments = [a''], bookings = [demo_booking ''pending'' None None None],
            workers = [demo_worker]\<rparr>,
           [LogError ''Failed to update booking status: %v''])
        \<and> a_Status a'' = ''accepted'')"
proof -
  let ?B = "demo_booking ''pending'' None None None"
  let ?A = "demo_assignment ''assigned'' ?B"
  let ?E = "demo_env 5"
  let ?F = "(demo_env 5)\<lparr>booking_update_fails := True\<rparr>"
  have h1: "assignment_GetByID ?E (demo_db ?A) 1 = Some ?A" by (rule demo_load)
  have h1f: "assignment_GetByID ?F (demo_db ?A) 1 = Some ?A"
    using h1 by (simp add: assignment_GetByID_def demo_env_def)
  have h2: "a_WorkerID ?A = 7" by (simp add: demo_assignment_def)
  have h3: "a_Status ?A \<noteq> spec_precondition (Start [])" by (simp add: demo_assignment_def)
  have h4: "a_Status ?A = spec_precondition (Accept ''ok'')" by (simp add: demo_assignment_def)
  have bid: "a_BookingID ?A = 10" by (simp add: demo_assignment_def)
  have h5: "\<not> assignment_update_fails ?E \<and> \<not> booking_update_fails ?E" by (simp add: demo_env_def)
  have h6: "booking_GetByID ?E (demo_db ?A) (a_BookingID ?A) = Some ?B"
    unfolding bid by (rule demo_booking_load)
  note t1 = transitions_follow_table [OF h1 h2, of "Start []" ?B]
  note t2 = transitions_follow_table [OF h1 h2, of "Accept ''ok''" ?B]
  note t3 = transitions_follow_table [OF h1f h2, of "Accept ''ok''" ?B]
  from t1 h3 have c1: "\<exists>msg. run (Start []) ?E (demo_db ?A) 1 7 = (Inl msg, demo_db ?A, [])
        \<and> kind_of msg = Some InvalidStateTransition" by blast
  from t2 h4 h5 h6 have "\<exists>a' db' fx b'. run (Accept ''ok'') ?E (demo_db ?A) 1 7 = (Inr a', db', fx)
        \<and> a_Status a' = spec_assignment_status (Accept ''ok'')
        \<and> find_row assignment_key (assignments db') 1 = Some a'
        \<and> find_row booking_key (bookings db') (a_BookingID ?A) = Some b'
        \<and> b_Status b' = spec_booking_status (Accept ''ok'')" by blast
  then have c2: "\<exists>a' db' fx b'. run (Accept ''ok'') ?E (demo_db ?A) 1 7 = (Inr a', db', fx)
        \<and> a_Status a' = ''accepted''
        \<and> find_row assignment_key (assignments db') 1 = Some a'
        \<and> find_row booking_key (bookings db') 10 = Some b' \<and> b_Status b' = ''confirmed''"
    unfolding bid by simp
  have r: "run (Accept ''ok'') ?F (demo_db ?A) 1 7
     = (Inl ''failed to update booking status'',
        \<lparr>assignments = [?A\<lparr>a_Status := ''accepted'', a_AcceptedAt := Some 5,
                                a_AcceptanceNotes := ''ok''\<rparr>],
         bookings = [?B], workers = [demo_worker]\<rparr>,
        [LogError ''Failed to update booking status: %v''])"
    using demo_accept_booking_write_fails by simp
  from t3 r have "bookings \<lparr>assignments = [?A\<lparr>a_Status := ''accepted'', a_AcceptedAt := Some 5,
                                a_AcceptanceNotes := ''ok''\<rparr>],
         bookings = [?B], workers = [demo_worker]\<rparr> = bookings (demo_db ?A)" by blast
  with r have c3: "\<exists>a''. run (Accept ''ok'') ?F (demo_db ?A) 1 7
        = (Inl ''failed to update booking status'',
           \<lparr>assignments = [a''], bookings = [?B], workers = [demo_worker]\<rparr>,
           [LogError ''Failed to update booking status: %v''])
        \<and> a_Status a'' = ''accepted''" by simp
  from h1 h2 h3 c1 h4 c2 c3 show ?thesis by blast
qed

section \<open>The privacy projection and the two queries\<close>

text \<open>
  Claim C6. The projection is a total function of the assignment alone, and the phone
  number of the booking's user has no part in it: two assignments that differ only in
  that phone number, whatever its value, have the same projection. The subscription
  and the notification settings of the user are replaced by the empty placeholder.
\<close>

theorem projection_ignores_owner_phone:
  "convertToPrivacyProtectedResponse
      (a\<lparr>a_Booking := (a_Booking a)\<lparr>b_User := (b_User (a_Booking a))\<lparr>u_Phone := phone\<rparr>\<rparr>\<rparr>)
     = convertToPrivacyProtectedResponse a
   \<and> ru_Subscription (rb_User (ra_Booking (convertToPrivacyProtectedResponse a))) = None
   \<and> ru_NotificationSettings (rb_User (ra_Booking (convertToPrivacyProtectedResponse a))) = None"
  by (simp add: convertToPrivacyProtectedResponse_def)

text \<open>
  Claim C10. The single lookup returns the assignment exactly as loaded, with every
  nested relation and so with the phone number of the booking's user, whereas the list
  query returns the projection of each assignment of the page, in order.
\<close>

theorem single_lookup_is_unprojected:
  assumes "assignment_GetByID env db aid = Some a" and "a_WorkerID a = w"
  shows "GetWorkerAssignment env db aid w = Inr a
       \<and> GetWorkerAssignments (Inr (page, pagination))
           = Inr (map convertToPrivacyProtectedResponse page, pagination)"
  using assms by (simp add: GetWorkerAssignment_def GetWorkerAssignments_def)

theorem single_lookup_is_unprojected_witness:
  "GetWorkerAssignment (demo_env 5)
      (demo_db (demo_assignment ''assigned'' (demo_booking ''confirmed'' None None None))) 1 7
     = Inr (demo_assignment ''assigned'' (demo_booking ''confirmed'' None None None))
   \<and> u_Phone (b_User (a_Booking
        (demo_assignment ''assigned'' (demo_booking ''confirmed'' None None None))))
     = ''9876543210''
   \<and> GetWorkerAssignments
        (Inr ([demo_assignment ''assigned'' (demo_booking ''confirmed'' None None None)],
              \<lparr>Page = 1, Limit = 10, Total = 1, TotalPages = 1\<rparr>))
     = Inr ([convertToPrivacyProtectedResponse
              (demo_assignment ''assigned'' (demo_booking ''confirmed'' None None None))],
            \<lparr>Page = 1, Limit = 10, Total = 1, TotalPages = 1\<rparr>)"
proof -
  let ?A = "demo_assignment ''assigned'' (demo_booking ''confirmed'' None None None)"
  have h1: "assignment_GetByID (demo_env 5) (demo_db ?A) 1 = Some ?A" by (rule demo_load)
  have h2: "a_WorkerID ?A = 7" by (simp add: demo_assignment_def)
  have ph: "u_Phone (b_User (a_Booking ?A)) = ''9876543210''"
    by (simp add: demo_assignment_def demo_booking_def demo_user_def)
  from single_lookup_is_unprojected [OF h1 h2, of "[?A]" "\<lparr>Page = 1, Limit = 10, Total = 1, TotalPages = 1\<rparr>"] ph
  show ?thesis by simp
qed

section \<open>Two Accept calls on one assigned assignment\<close>

lemma accept_store_commits:
  assumes "find_row assignment_key (assignments db) aid = Some a0"
    and "find_row booking_key (bookings db) (a_BookingID a) = Some b"
    and "assignment_key a = aid"
    and "\<not> assignment_update_fails env" and "\<not> booking_get_fails env"
    and "\<not> booking_update_fails env"
  shows "accept_store env db notes a =
     (Inr (a\<lparr>a_Status := AssignmentStatusAccepted, a_AcceptedAt := Some (now env),
             a_AcceptanceNotes := notes\<rparr>),
      db\<lparr>assignments := save_row assignment_key
              (a\<lparr>a_Status := AssignmentStatusAccepted, a_AcceptedAt := Some (now env),
                 a_AcceptanceNotes := notes\<rparr>) (assignments db),
         bookings := save_row booking_key (b\<lparr>b_Status := BookingStatusConfirmed\<rparr>) (bookings db)\<rparr>,
      [CreateBookingChatRoomWhenWorkerAccepts (a_BookingID a)]
      @ (if chat_create_fails env
         then [LogError ''Failed to create chat room for booking %d: %v''] else [])
      @ [EnableCallMasking (a_BookingID a),
         SendWorkerAssignmentNotification aid ''accepted'',
         NotifyAssignmentAccepted aid (a_BookingID a)])"
  using assms find_row_key [OF assms(2)]
  by (simp add: accept_store_def Let_def repo_defs)

text \<open>
  The calls in sequence are the four steps load, store, load, store; the overlapping
  run differs only in making the second load before the first store.
\<close>

lemma accept_in_sequence_steps:
  "accept_in_sequence env1 env2 db aid w n1 n2 =
     (case (case accept_load env1 db aid w of
              Inl e \<Rightarrow> (Inl e, db, [])
            | Inr a1 \<Rightarrow> accept_store env1 db n1 a1) of
        (r1, db1, fx1) \<Rightarrow>
          (case (case accept_load env2 db1 aid w of
                   Inl e \<Rightarrow> (Inl e, db1, [])
                 | Inr a2 \<Rightarrow> accept_store env2 db1 n2 a2) of
             (r2, db2, fx2) \<Rightarrow> (r1, r2, db2, fx1 @ fx2)))"
  by (simp add: accept_in_sequence_def AcceptAssignment_halves)

text \<open>
  Claim C9, as stated, fails: when both calls load the assignment before either
  writes, both pass the status check, both return the accepted assignment and the
  ports are called twice over; the second write overwrites the first.
\<close>

theorem overlapping_accepts_both_succeed_counterexample:
  "accept_overlapping (demo_env 5) (demo_env 6)
      (demo_db (demo_assignment ''assigned'' (demo_booking ''pending'' None None None)))
      1 7 ''first'' ''second''
   = (Inr ((demo_assignment ''assigned'' (demo_booking ''pending'' None None None))
             \<lparr>a_Status := ''accepted'', a_AcceptedAt := Some 5, a_AcceptanceNotes := ''first''\<rparr>),
      Inr ((demo_assignment ''assigned'' (demo_booking ''pending'' None None None))
             \<lparr>a_Status := ''accepted'', a_AcceptedAt := Some 6, a_AcceptanceNotes := ''second''\<rparr>),
      \<lparr>assignments = [(demo_assignment ''assigned'' (demo_booking ''pending'' None None None))
             \<lparr>a_Status := ''accepted'', a_AcceptedAt := Some 6, a_AcceptanceNotes := ''second''\<rparr>],
       bookings = [(demo_booking ''pending'' None None None)\<lparr>b_Status := ''confirmed''\<rparr>],
       workers = [demo_worker]\<rparr>,
      [CreateBookingChatRoomWhenWorkerAccepts 10, EnableCallMasking 10,
       SendWorkerAssignmentNotification 1 ''accepted'', NotifyAssignmentAccepted 1 10,
       CreateBookingChatRoomWhenWorkerAccepts 10, EnableCallMasking 10,
       SendWorkerAssignmentNotification 1 ''accepted'', NotifyAssignmentAccepted 1 10])"
  by (simp add: accept_overlapping_def accept_load_def accept_store_def Let_def repo_defs
      find_row_def save_row_def key_defs status_defs
      demo_db_def demo_env_def demo_assignment_def demo_booking_def demo_model_def)

text \<open>
  Claim C9, amended. For an assignment in status assigned that is found and owned by the
  caller: when the first Accept can write the assignment and load and write the
  booking, and the second Accept starts after the first has returned and can load the
  assignment, the first call returns the accepted assignment and the second an error
  of kind InvalidStateTransition, the database stays as the first call left it, and
  call masking is enabled once. The service does not serialize the load, the check and
  the write: under the same conditions, when the second call loads before the first
  writes, and its own assignment write, booking load and booking write succeed, both
  calls return an accepted assignment and call masking is enabled twice.
\<close>

theorem second_accept_in_sequence_rejected:
  assumes "assignment_GetByID env1 db aid = Some a" and "a_WorkerID a = w"
    and "a_Status a = AssignmentStatusAssigned"
    and "\<not> assignment_update_fails env1"
    and "booking_GetByID env1 db (a_BookingID a) = Some b"
    and "\<not> booking_update_fails env1"
    and "\<not> assignment_get_fails env2"
  shows "(\<exists>db1 fx1.
            accept_in_sequence env1 env2 db aid w n1 n2
              = (Inr (a\<lparr>a_Status := AssignmentStatusAccepted, a_AcceptedAt := Some (now env1),
                        a_AcceptanceNotes := n1\<rparr>),
                 Inl ''assignment cannot be accepted in current status'', db1, fx1)
          \<and> AcceptAssignment env1 db aid w n1
              = (Inr (a\<lparr>a_Status := AssignmentStatusAccepted, a_AcceptedAt := Some (now env1),
                        a_AcceptanceNotes := n1\<rparr>), db1, fx1)
          \<and> count_list fx1 (EnableCallMasking (a_BookingID a)) = 1)
       \<and> kind_of ''assignment cannot be accepted in current status''
           = Some InvalidStateTransition
       \<and> (\<not> assignment_update_fails env2 \<and> \<not> booking_get_fails env2
            \<and> \<not> booking_update_fails env2 \<longrightarrow>
            (\<exists>db2 fx. accept_overlapping env1 env2 db aid w n1 n2
              = (Inr (a\<lparr>a_Status := AssignmentStatusAccepted, a_AcceptedAt := Some (now env1),
                        a_AcceptanceNotes := n1\<rparr>),
                 Inr (a\<lparr>a_Status := AssignmentStatusAccepted, a_AcceptedAt := Some (now env2),
                        a_AcceptanceNotes := n2\<rparr>), db2, fx)
              \<and> count_list fx (EnableCallMasking (a_BookingID a)) = 2))"
proof -
  let ?a1 = "a\<lparr>a_Status := AssignmentStatusAccepted, a_AcceptedAt := Some (now env1),
                        a_AcceptanceNotes := n1\<rparr>"
  let ?a2 = "a\<lparr>a_Status := AssignmentStatusAccepted, a_AcceptedAt := Some (now env2),
                        a_AcceptanceNotes := n2\<rparr>"
  let ?b1 = "b\<lparr>b_Status := BookingStatusConfirmed\<rparr>"
  have fa: "find_row assignment_key (assignments db) aid = Some a"
    and g1: "\<not> assignment_get_fails env1"
    using assms(1) by (simp_all add: assignment_GetByID_def split: if_splits)
  have fb: "find_row booking_key (bookings db) (a_BookingID a) = Some b"
    and bg1: "\<not> booking_get_fails env1"
    using assms(5) by (simp_all add: booking_GetByID_def split: if_splits)
  have ka: "assignment_key a = aid" by (rule find_row_key [OF fa])
  have kb: "booking_key b = a_BookingID a" by (rule find_row_key [OF fb])
  have l1: "accept_load env1 db aid w = Inr a"
    using assms(1,2,3) by (simp add: accept_load_def)
  have l2: "accept_load env2 db aid w = Inr a"
    using fa assms(2,3,7) by (simp add: accept_load_def assignment_GetByID_def)
  note s1 = accept_store_commits [OF fa fb ka assms(4) bg1 assms(6), of n1]
  let ?db1 = "db\<lparr>assignments := save_row assignment_key ?a1 (assignments db),
         bookings := save_row booking_key ?b1 (bookings db)\<rparr>"
  let ?fx1 = "[CreateBookingChatRoomWhenWorkerAccepts (a_BookingID a)]
      @ (if chat_create_fails env1
         then [LogError ''Failed to create chat room for booking %d: %v''] else [])
      @ [EnableCallMasking (a_BookingID a),
         SendWorkerAssignmentNotification aid ''accepted'',
         NotifyAssignmentAccepted aid (a_BookingID a)]"
  have r1: "AcceptAssignment env1 db aid w n1 = (Inr ?a1, ?db1, ?fx1)"
    unfolding AcceptAssignment_halves l1 using s1 by simp
  have fa1: "find_row assignment_key (assignments ?db1) aid = Some ?a1"
    using find_row_save_same [OF fa, of ?a1] ka by simp
  have fb1: "find_row booking_key (bookings ?db1) (a_BookingID a) = Some ?b1"
    using find_row_save_same [OF fb, of ?b1] kb by simp
  have r2: "AcceptAssignment env2 ?db1 aid w n2
          = (Inl ''assignment cannot be accepted in current status'', ?db1, [])"
    using fa1 assms(2,7) by (simp add: AcceptAssignment_def assignment_GetByID_def status_defs)
  have seq: "accept_in_sequence env1 env2 db aid w n1 n2
              = (Inr ?a1, Inl ''assignment cannot be accepted in current status'', ?db1, ?fx1)"
    by (simp add: accept_in_sequence_def r1 r2)
  have c1: "count_list ?fx1 (EnableCallMasking (a_BookingID a)) = 1" by simp
  have k: "kind_of ''assignment cannot be accepted in current status''
           = Some InvalidStateTransition" by (simp add: kind_of_def)
  have ov: "\<exists>db2 fx. accept_overlapping env1 env2 db aid w n1 n2 = (Inr ?a1, Inr ?a2, db2, fx)
              \<and> count_list fx (EnableCallMasking (a_BookingID a)) = 2"
    if c: "\<not> assignment_update_fails env2 \<and> \<not> booking_get_fails env2
            \<and> \<not> booking_update_fails env2"
  proof -
    have fb1': "find_row booking_key (bookings ?db1) (a_BookingID a) = Some ?b1" by (rule fb1)
    from c have u2: "\<not> assignment_update_fails env2" and bg2: "\<not> booking_get_fails env2"
      and bu2: "\<not> booking_update_fails env2" by simp_all
    note s2 = accept_store_commits [OF fa1 fb1' ka u2 bg2 bu2, of n2]
    show ?thesis
      unfolding accept_overlapping_def l1 l2 Let_def
      using s1 s2 by simp
  qed
  from seq r1 c1 k ov show ?thesis by blast
qed

theorem second_accept_in_sequence_rejected_witness:
  "(\<exists>db1 fx1.
      accept_in_sequence (demo_env 5) (demo_env 6)
        (demo_db (demo_assignment ''assigned'' (demo_booking ''pending'' None None None)))
        1 7 ''first'' ''second''
      = (Inr ((demo_assignment ''assigned'' (demo_booking ''pending'' None None None))
               \<lparr>a_Status := ''accepted'', a_AcceptedAt := Some 5, a_AcceptanceNotes := ''first''\<rparr>),
         Inl ''assignment cannot be accepted in current status'', db1, fx1)
      \<and> count_list fx1 (EnableCallMasking 10) = 1)
   \<and> (\<exists>db2 fx.
      accept_overlapping (demo_env 5) (demo_env 6)
        (demo_db (demo_assignment ''assigned'' (demo_booking ''pending'' None None None)))
        1 7 ''first'' ''second''
      = (Inr ((demo_assignment ''assigned'' (demo_booking ''pending'' None None None))
               \<lparr>a_Status := ''accepted'', a_AcceptedAt := Some 5, a_AcceptanceNotes := ''first''\<rparr>),
         Inr ((demo_assignment ''assigned'' (demo_booking ''pending'' None None None))
               \<lparr>a_Status := ''accepted'', a_AcceptedAt := Some 6, a_AcceptanceNotes := ''second''\<rparr>),
         db2, fx)
      \<and> count_list fx (EnableCallMasking 10) = 2)"
proof -
  let ?B = "demo_booking ''pending'' None None None"
  let ?A = "demo_assignment ''assigned'' ?B"
  have h1: "assignment_GetByID (demo_env 5) (demo_db ?A) 1 = Some ?A" by (rule demo_load)
  have h2: "a_WorkerID ?A = 7" by (simp add: demo_assignment_def)
  have h3: "a_Status ?A = AssignmentStatusAssigned"
    by (simp add: demo_assignment_def AssignmentStatusAssigned_def)
  have h4: "\<not> assignment_update_fails (demo_env 5)" by (simp add: demo_env_def)
  have bid: "a_BookingID ?A = 10" by (simp add: demo_assignment_def)
  have h5: "booking_GetByID (demo_env 5) (demo_db ?A) (a_BookingID ?A) = Some ?B"
    unfolding bid by (rule demo_booking_load)
  have h6: "\<not> booking_update_fails (demo_env 5)" by (simp add: demo_env_def)
  have h7: "\<not> assignment_get_fails (demo_env 6)" by (simp add: demo_env_def)
  have h8: "\<not> assignment_update_fails (demo_env 6) \<and> \<not> booking_get_fails (demo_env 6)
            \<and> \<not> booking_update_fails (demo_env 6)" by (simp add: demo_env_def)
  have n: "now (demo_env 5) = 5" "now (demo_env 6) = 6" by (simp_all add: demo_env_def)
  from second_accept_in_sequence_rejected [OF h1 h2 h3 h4 h5 h6 h7, of "''first''" "''second''"] h8
  show ?thesis
    unfolding bid n AssignmentStatusAccepted_def by blast
qed

end
